theory Spec2Isabelle
  imports Complex_Main "HOL-Library.Word"
begin

section \<open>Numeric conventions of the C++ source\<close>

text \<open>
  The driver keeps its quantities in INDI number properties, whose values are C++ doubles.
  Every store into the position, bound and backlash properties is an integer (a
  \<open>uint32_t\<close>, an \<open>int\<close>, or the product and quotient of two), and a double holds every
  32-bit integer exactly, so these properties are modelled as \<open>int\<close>. Temperatures,
  coefficients and sensor readings are doubles and are modelled as \<open>real\<close>. In the thermal
  compensation, whose guard the rounding decides, the model rounds as the code does: the
  result of a double operation to double precision (\<open>to_double\<close>), a value stored in a
  \<open>float\<close> variable to single precision (\<open>to_float\<close>); the sensor formulas are computed
  without rounding. A product computed in \<open>int\<close> is reduced to 32 bits (\<open>to_int32\<close>).
\<close>

text \<open>Integer division of C++ truncates towards zero.\<close>

definition c_div :: "int \<Rightarrow> int \<Rightarrow> int" where
  "c_div a b = (if (a < 0) = (b < 0) then \<bar>a\<bar> div \<bar>b\<bar> else - (\<bar>a\<bar> div \<bar>b\<bar>))"

text \<open>Conversion of a double to \<open>int\<close> discards the fraction.\<close>

definition c_trunc :: "real \<Rightarrow> int" where
  "c_trunc x = (if 0 \<le> x then \<lfloor>x\<rfloor> else \<lceil>x\<rceil>)"

text \<open>\<open>round\<close> of the C library: to the nearest integer, halves away from zero.\<close>

definition c_round :: "real \<Rightarrow> int" where
  "c_round x = (if 0 \<le> x then \<lfloor>x + 1 / 2\<rfloor> else \<lceil>x - 1 / 2\<rceil>)"

text \<open>
  Conversion of an integer-valued double to \<open>uint32_t\<close>. Inside \<open>[0, 2^32)\<close> it is exact;
  outside the C++ standard leaves it undefined, and the model wraps.
\<close>

definition to_uint32 :: "int \<Rightarrow> 32 word" where
  "to_uint32 x = word_of_int x"

text \<open>
  A value computed in \<open>int\<close>, as the 32-bit targets of the driver keep it: reduced modulo
  \<open>2^32\<close> and read as signed. (The C++ standard leaves signed overflow undefined.)
\<close>

definition to_int32 :: "int \<Rightarrow> int" where
  "to_int32 x = sint (word_of_int x :: 32 word)"

text \<open>
  Rounding of a real to the nearest binary floating-point number with \<open>p\<close> significant bits,
  ties to the even significand; below the least normal exponent \<open>emin\<close> the spacing stays
  that of \<open>emin\<close>. Overflow to infinity is left out: the quantities rounded below are far
  inside the range.
\<close>

definition round_half_even :: "real \<Rightarrow> int" where
  "round_half_even x =
     (let f = \<lfloor>x\<rfloor>
      in if x - of_int f < 1 / 2 then f
         else if 1 / 2 < x - of_int f then f + 1
         else if even f then f else f + 1)"

definition binary_exponent :: "int \<Rightarrow> real \<Rightarrow> int" where
  "binary_exponent emin x = max emin \<lfloor>log 2 \<bar>x\<bar>\<rfloor>"

definition round_binary :: "int \<Rightarrow> int \<Rightarrow> real \<Rightarrow> real" where
  "round_binary p emin x =
     (if x = 0 then 0
      else of_int (round_half_even (x / 2 powi (binary_exponent emin x - (p - 1))))
             * 2 powi (binary_exponent emin x - (p - 1)))"

text \<open>
  The result of an operation on doubles, and the value kept when a double is stored in a
  \<open>float\<close> variable.
\<close>

definition to_double :: "real \<Rightarrow> real" where
  "to_double x = round_binary 53 (- 1022) x"

definition to_float :: "real \<Rightarrow> real" where
  "to_float x = round_binary 24 (- 126) x"

definition MAX_RESOLUTION :: int where
  "MAX_RESOLUTION = 32"

section \<open>Device state\<close>

datatype IPState = IPS_IDLE | IPS_OK | IPS_BUSY | IPS_ALERT

datatype pin = DECAY_PIN | EN_PIN | M0_PIN | M1_PIN | M2_PIN | STP_PIN | DIR_PIN | MOTOR_PWM

text \<open>What the driver sends to the hardware, in order.\<close>

datatype hw_event =
    GpioWrite pin bool
  | TxPwm pin int
  | SetDac int int

text \<open>The writes to the step line among the hardware writes.\<close>

fun is_step_write :: "hw_event \<Rightarrow> bool" where
  "is_step_write (GpioWrite p level) = (p = STP_PIN)"
| "is_step_write (TxPwm p duty) = False"
| "is_step_write (SetDac chan v) = False"

text \<open>
  The fields of \<open>AstroLink4Pi\<close> that the focuser code reads and writes. \<open>motionThread\<close> is
  the thread handle: \<open>None\<close> when it is not joinable, otherwise the arguments the worker
  was spawned with (target, direction, backlash ticks). \<open>posFile\<close> is the content of the
  \<open>.position\<close> file (\<open>None\<close> when it cannot be read) and \<open>posFile_writable\<close> says whether
  opening it for writing succeeds. \<open>hw\<close> records the hardware writes; \<open>pulse_log\<close> is an
  observation added by the model: the value of the worker's \<open>currentPos\<close> after each
  pulse of the step line.
\<close>

record focuser =
  isConnected :: bool
  revision :: int
  FocusAbsPos_value :: int
  FocusAbsPos_min :: int
  FocusAbsPos_max :: int
  FocusAbsPos_step :: int
  FocusAbsPos_s :: IPState
  FocusRelPos_value :: int
  FocusRelPos_min :: int
  FocusRelPos_max :: int
  FocusRelPos_step :: int
  FocusRelPos_s :: IPState
  FocusMaxPos_value :: int
  FocusMaxPos_min :: int
  FocusMaxPos_max :: int
  FocusMaxPos_step :: int
  FocusBacklash_value :: int
  FocusReverse_enabled :: bool
  StepperCurrent_value :: real
  holdPower :: int
  resolution :: int
  lastDirection :: int
  backlashTicksRemaining :: int
  abort_flag :: bool
  motionThread :: "(32 word \<times> int \<times> int) option"
  posFile :: "int option"
  posFile_writable :: bool
  FocusTemperature_value :: real
  lastTemperature :: real
  TemperatureCompensate_on :: bool
  TemperatureCoef_value :: real
  FocuserInfo_step_size :: real
  FocuserInfo_cfz :: real
  FocuserInfo_steps_cfz :: real
  FocuserInfo_s :: IPState
  FocuserTravel_value :: real
  Scope_diam :: real
  Scope_fl :: real
  hw :: "hw_event list"
  pulse_log :: "32 word list"

section \<open>Holding and driving current\<close>

definition getMotorPWM :: "int \<Rightarrow> int" where
  "getMotorPWM current = c_div current 20"

text \<open>
  \<open>setCurrent\<close>; \<open>holdPower\<close> stands for the result of \<open>getHoldPower()\<close> (0 to 5, read off
  the hold switches). The current is a double; the arguments of \<open>setDac\<close> and
  \<open>getMotorPWM\<close> are computed in double and converted to \<open>int\<close> at the call.
\<close>

definition setCurrent :: "focuser \<Rightarrow> bool \<Rightarrow> focuser" where
  "setCurrent s standby =
     (if \<not> isConnected s then s
      else if standby then
        (let held = of_int (holdPower s) * StepperCurrent_value s / 5 in
         s\<lparr>hw := hw s
            @ [GpioWrite EN_PIN (\<not> 0 < holdPower s), GpioWrite DECAY_PIN False]
            @ (if revision s < 4 then [SetDac 0 (c_trunc (255 * held / 4096))] else [])
            @ (if 4 \<le> revision s then [TxPwm MOTOR_PWM (getMotorPWM (c_trunc held))] else [])\<rparr>)
      else
        s\<lparr>hw := hw s
           @ [GpioWrite EN_PIN False, GpioWrite DECAY_PIN True]
           @ (if revision s < 4
              then [SetDac 0 (c_trunc (255 * StepperCurrent_value s / 4096))] else [])
           @ (if 4 \<le> revision s
              then [TxPwm MOTOR_PWM (getMotorPWM (c_trunc (StepperCurrent_value s)))]
              else [])\<rparr>)"

section \<open>Position store\<close>

text \<open>
  \<open>savePosition\<close>: the argument \<open>-1\<close> asks for a read of the file, any other value is
  written to it. The result is the position read or written, or \<open>-1\<close> on failure.
\<close>

definition savePosition :: "focuser \<Rightarrow> int \<Rightarrow> int \<times> focuser" where
  "savePosition s pos =
     (if pos = - 1 then
        (case posFile s of None \<Rightarrow> (- 1, s) | Some v \<Rightarrow> (v, s))
      else if posFile_writable s then (pos, s\<lparr>posFile := Some pos\<rparr>)
      else (- 1, s))"

section \<open>Absolute moves\<close>

text \<open>
  \<open>MoveAbsFocuser\<close>. The model is sequential: a worker runs between two calls of the
  driver's entry points, so when a move is requested the previous worker has left its
  loop and joining it returns at once.
\<close>

definition MoveAbsFocuser :: "focuser \<Rightarrow> 32 word \<Rightarrow> IPState \<times> focuser" where
  "MoveAbsFocuser s targetTicks =
     (if uint targetTicks < FocusAbsPos_min s \<or> FocusAbsPos_max s < uint targetTicks then
        (IPS_ALERT, s)
      else if uint targetTicks = FocusAbsPos_value s then (IPS_OK, s)
      else
        (let s1 = setCurrent (s\<lparr>FocusAbsPos_s := IPS_BUSY\<rparr>) False;
             newDirection = (if FocusAbsPos_value s1 < uint targetTicks then 1 else - 1);
             s2 = (if lastDirection s1 \<noteq> 0 \<and> newDirection \<noteq> lastDirection s1
                      \<and> FocusBacklash_value s1 \<noteq> 0
                   then s1\<lparr>backlashTicksRemaining := FocusBacklash_value s1\<rparr>
                   else s1\<lparr>backlashTicksRemaining := 0\<rparr>);
             s3 = s2\<lparr>lastDirection := newDirection\<rparr>;
             s4 = (if motionThread s3 \<noteq> None then s3\<lparr>abort_flag := True\<rparr> else s3);
             s5 = s4\<lparr>abort_flag := False\<rparr>
         in (IPS_BUSY,
             s5\<lparr>motionThread :=
                  Some (targetTicks, lastDirection s5, backlashTicksRemaining s5)\<rparr>)))"

section \<open>The motion worker\<close>

text \<open>
  One iteration of the worker's loop: publish the position every 100 ticks, drive the
  direction line, pulse the step line, then either count the step or use up one backlash
  tick.
\<close>

definition motor_pulse :: "int \<Rightarrow> 32 word \<Rightarrow> int \<Rightarrow> focuser \<Rightarrow> 32 word \<times> int \<times> focuser" where
  "motor_pulse motorDirection currentPos backlash s =
     (let s1 = (if currentPos mod 100 = 0
                then s\<lparr>FocusAbsPos_value := uint currentPos, FocusAbsPos_s := IPS_BUSY\<rparr>
                else s);
          dirLevel = (if FocusReverse_enabled s1 then motorDirection < 0
                      else \<not> motorDirection < 0);
          s2 = s1\<lparr>hw := hw s1
                 @ [GpioWrite DIR_PIN dirLevel, GpioWrite STP_PIN True, GpioWrite STP_PIN False]\<rparr>;
          currentPos' = (if backlash \<le> 0 then currentPos + word_of_int motorDirection
                         else currentPos);
          backlash' = (if backlash \<le> 0 then backlash else backlash - 1)
      in (currentPos', backlash', s2\<lparr>pulse_log := pulse_log s2 @ [currentPos']\<rparr>))"

text \<open>
  The loop \<open>while (currentPos != targetPos && !_abort)\<close>. The flag is written by another
  thread, so the model takes the values the worker reads: \<open>aborts k\<close> is what the
  \<open>k\<close>-th evaluation of the loop condition finds in \<open>_abort\<close>. The loop need not end
  (a direction of 0 never reaches the target), hence the result is an option and \<open>None\<close>
  stands for a worker that never leaves the loop.
\<close>

partial_function (option) motor_loop ::
  "32 word \<Rightarrow> int \<Rightarrow> (nat \<Rightarrow> bool) \<Rightarrow> nat \<Rightarrow> 32 word \<Rightarrow> int \<Rightarrow> focuser
     \<Rightarrow> (32 word \<times> int \<times> focuser) option" where
  "motor_loop targetPos motorDirection aborts k currentPos backlash s =
     (if currentPos \<noteq> targetPos \<and> \<not> aborts k then
        (case motor_pulse motorDirection currentPos backlash s of
           (currentPos', backlash', s') \<Rightarrow>
             motor_loop targetPos motorDirection aborts (Suc k) currentPos' backlash' s')
      else Some (currentPos, backlash, s))"

text \<open>What the worker does after the loop: publish, persist, record the temperature.\<close>

definition motor_exit :: "32 word \<Rightarrow> focuser \<Rightarrow> focuser" where
  "motor_exit currentPos s =
     (let s1 = s\<lparr>FocusAbsPos_value := uint currentPos, FocusAbsPos_s := IPS_OK,
                 FocusRelPos_s := IPS_OK\<rparr>;
          s2 = snd (savePosition s1
                 (c_div (to_int32 (FocusAbsPos_value s1 * MAX_RESOLUTION)) (resolution s1)));
          s3 = s2\<lparr>lastTemperature := FocusTemperature_value s2\<rparr>
      in setCurrent s3 True)"

text \<open>
  The body of the thread made by \<open>getMotorThread\<close>, run on the arguments kept in the
  thread handle.
\<close>

definition motor_thread :: "focuser \<Rightarrow> (nat \<Rightarrow> bool) \<Rightarrow> focuser option" where
  "motor_thread s aborts =
     (case motionThread s of
        None \<Rightarrow> Some s
      | Some (targetPos, direction, backlash) \<Rightarrow>
          (case motor_loop targetPos direction aborts 0
                  (to_uint32 (FocusAbsPos_value s)) backlash s of
             None \<Rightarrow> None
           | Some (currentPos, backlash', s') \<Rightarrow> Some (motor_exit currentPos s')))"

section \<open>Synchronising and loading the position\<close>

text \<open>
  \<open>SyncFocuser\<close> sets the position without motion and hands \<open>ticks\<close> to \<open>savePosition\<close>,
  whose parameter is an \<open>int\<close>: the \<open>uint32_t\<close> is reinterpreted as signed.
\<close>

definition SyncFocuser :: "focuser \<Rightarrow> 32 word \<Rightarrow> bool \<times> focuser" where
  "SyncFocuser s ticks =
     (let s1 = s\<lparr>FocusAbsPos_value := uint ticks\<rparr>
      in (True, snd (savePosition s1 (sint ticks))))"

text \<open>
  The line of \<open>Connect\<close> that reads the stored position and converts it from
  \<open>MAX_RESOLUTION\<close> to the current resolution.
\<close>

definition Connect_load_position :: "focuser \<Rightarrow> focuser" where
  "Connect_load_position s =
     s\<lparr>FocusAbsPos_value :=
          (if fst (savePosition s (- 1)) \<noteq> - 1
           then c_div (to_int32 (fst (savePosition s (- 1)) * resolution s)) MAX_RESOLUTION
           else 0)\<rparr>"

section \<open>Thermal compensation\<close>

text \<open>
  \<open>temperatureCompensation\<close>. \<open>FocuserInfoN[2]\<close> is the number of steps per critical focus
  zone. \<open>deltaTemperature\<close> and \<open>deltaPos\<close> are \<open>float\<close> variables: the difference and the
  product are computed in double and rounded to single precision when stored. \<open>abs\<close>
  is taken on the \<open>float\<close>, the comparison with half the zone is between doubles and
  exact. The sum of
  the position and the adjustment is a double that the call converts to the \<open>uint32_t\<close>
  parameter of \<open>MoveAbsFocuser\<close>.
\<close>

definition temperatureCompensation :: "focuser \<Rightarrow> focuser" where
  "temperatureCompensation s =
     (if \<not> isConnected s then s
      else if TemperatureCompensate_on s \<and> FocusTemperature_value s \<noteq> lastTemperature s then
        (let deltaTemperature =
               to_float (to_double (FocusTemperature_value s - lastTemperature s));
             deltaPos = to_float (to_double (TemperatureCoef_value s * deltaTemperature))
         in if FocuserInfo_steps_cfz s / 2 < \<bar>deltaPos\<bar> then
              (let thermalAdjustment = c_round deltaPos;
                   s1 = snd (MoveAbsFocuser s
                          (to_uint32 (FocusAbsPos_value s + thermalAdjustment)))
               in s1\<lparr>lastTemperature := FocusTemperature_value s1\<rparr>)
            else s)
      else s)"

section \<open>Changing the resolution\<close>

datatype res_switch = RES_1 | RES_2 | RES_4 | RES_8 | RES_16 | RES_32

text \<open>
  The resolution vector is one-of-many: after \<open>IUUpdateSwitch\<close> one switch is on, and the
  chain of \<open>if\<close>s assigns its value to \<open>resolution\<close>.
\<close>

fun resolution_of :: "res_switch \<Rightarrow> int" where
  "resolution_of RES_1 = 1"
| "resolution_of RES_2 = 2"
| "resolution_of RES_4 = 4"
| "resolution_of RES_8 = 8"
| "resolution_of RES_16 = 16"
| "resolution_of RES_32 = 32"

definition SetResolution :: "focuser \<Rightarrow> int \<Rightarrow> focuser" where
  "SetResolution s res =
     (let m = (if res = 1 then (False, False, False)
               else if res = 2 then (True, False, False)
               else if res = 4 then (False, True, False)
               else if res = 8 then (True, True, False)
               else if res = 16 then (False, False, True)
               else if res = 32 then (True, True, True)
               else (False, False, False))
      in s\<lparr>hw := hw s
           @ [GpioWrite M0_PIN True, GpioWrite M1_PIN True, GpioWrite M2_PIN True]
           @ [GpioWrite M0_PIN (fst m), GpioWrite M1_PIN (fst (snd m)),
              GpioWrite M2_PIN (snd (snd m))]\<rparr>)"

text \<open>
  \<open>getFocuserInfo\<close>. Where the C++ divides by zero the result is an infinity or a NaN; the
  model's quotient is then 0. No theorem below depends on the values computed here.
\<close>

definition getFocuserInfo :: "focuser \<Rightarrow> focuser" where
  "getFocuserInfo s =
     (let travel_mm = FocuserTravel_value s;
          aperture = Scope_diam s;
          focal = Scope_fl s;
          f_ratio = (if aperture * focal \<noteq> 0 then focal / aperture else 0);
          cfz = 4.88 * 0.520 * f_ratio ^ 2;
          step_size = 1000 * travel_mm / of_int (FocusMaxPos_value s);
          steps_per_cfz = of_int (c_trunc cfz) / step_size
      in s\<lparr>FocuserInfo_s :=
             (if 4 \<le> steps_per_cfz then IPS_OK
              else if 2 < steps_per_cfz \<and> steps_per_cfz < 4 then IPS_BUSY
              else IPS_ALERT),
           FocuserInfo_step_size := step_size,
           FocuserInfo_cfz := cfz,
           FocuserInfo_steps_cfz := steps_per_cfz\<rparr>)"

text \<open>
  The first value of \<open>position_adjustment\<close>: the old resolution times the fractional part
  of position over old resolution, converted to \<open>int\<close>.
\<close>

definition position_adjustment :: "int \<Rightarrow> int \<Rightarrow> int" where
  "position_adjustment last_resolution pos =
     c_trunc (of_int last_resolution
       * (of_int pos / of_int last_resolution - of_int (c_div pos last_resolution)))"

text \<open>Its second value, the signed size of the corrective move.\<close>

definition corrective_move :: "int \<Rightarrow> int \<Rightarrow> int" where
  "corrective_move last_resolution adjustment =
     (if (of_int adjustment :: real) / of_int last_resolution < 0.5
      then adjustment * (- 1)
      else last_resolution - adjustment)"

text \<open>The branch of \<open>ISNewSwitch\<close> that handles the resolution switch.\<close>

definition ISNewSwitch_FocusResolution :: "focuser \<Rightarrow> res_switch \<Rightarrow> focuser" where
  "ISNewSwitch_FocusResolution s sw =
     (let last_resolution = resolution s;
          s0 = s\<lparr>resolution := resolution_of sw\<rparr>;
          adjustment = position_adjustment last_resolution (FocusAbsPos_value s0);
          s1 = (if resolution s0 < last_resolution \<and> 0 < adjustment then
                  snd (MoveAbsFocuser s0
                    (to_uint32 (FocusAbsPos_value s0
                       + corrective_move last_resolution adjustment)))
                else s0);
          s2 = SetResolution s1 (resolution s1);
          res = resolution s2;
          s3 = s2\<lparr>FocusRelPos_min := c_div (to_int32 (FocusRelPos_min s2 * res)) last_resolution,
                  FocusRelPos_max := c_div (to_int32 (FocusRelPos_max s2 * res)) last_resolution,
                  FocusRelPos_step := c_div (to_int32 (FocusRelPos_step s2 * res)) last_resolution,
                  FocusRelPos_value := c_div (to_int32 (FocusRelPos_value s2 * res)) last_resolution\<rparr>;
          s4 = s3\<lparr>FocusAbsPos_max := c_div (to_int32 (FocusAbsPos_max s3 * res)) last_resolution,
                  FocusAbsPos_step := c_div (to_int32 (FocusAbsPos_step s3 * res)) last_resolution,
                  FocusAbsPos_value := c_div (to_int32 (FocusAbsPos_value s3 * res)) last_resolution\<rparr>;
          s5 = s4\<lparr>FocusMaxPos_min := c_div (to_int32 (FocusMaxPos_min s4 * res)) last_resolution,
                  FocusMaxPos_max := c_div (to_int32 (FocusMaxPos_max s4 * res)) last_resolution,
                  FocusMaxPos_step := c_div (to_int32 (FocusMaxPos_step s4 * res)) last_resolution,
                  FocusMaxPos_value := c_div (to_int32 (FocusMaxPos_value s4 * res)) last_resolution\<rparr>
      in getFocuserInfo s5)"

section \<open>The light sensor\<close>

datatype TSL_mode = TSL_NOTAVAILABLE | TSL_AVAILABLE | TSL_INITIALIZED

definition TSL2591_ADC_TIME :: int where
  "TSL2591_ADC_TIME = 750"

definition FILTER_COEFF :: real where
  "FILTER_COEFF = - 1.2"

text \<open>
  The members that \<open>readTSL\<close> keeps between calls, the offset property, and the
  \<open>SQM_READING\<close> parameter it publishes.
\<close>

record tsl =
  TSLmode :: TSL_mode
  adcStartTime :: int
  niter :: int
  fullCumulative :: int
  irCumulative :: int
  SQMOffset_value :: real
  SQM_READING :: real

text \<open>
  What one call of \<open>readTSL\<close> gets from outside: the result of \<open>lgI2cOpen\<close>, the result of
  its \<open>k\<close>-th \<open>lgI2cWriteByte\<close>, the value of \<open>millis()\<close>, and the two words read from the
  infrared and the full-spectrum channel.
\<close>

record tsl_io =
  tsl_i2cHandle :: int
  tsl_write :: "nat \<Rightarrow> int"
  tsl_millis :: int
  tsl_ir :: int
  tsl_full :: int

definition readTSL :: "tsl_io \<Rightarrow> tsl \<Rightarrow> bool \<times> tsl" where
  "readTSL io s =
     (if tsl_i2cHandle io < 0 then (False, s\<lparr>TSLmode := TSL_NOTAVAILABLE\<rparr>)
      else case TSLmode s of
        TSL_NOTAVAILABLE \<Rightarrow>
          (if tsl_write io 0 = 0 then (True, s\<lparr>TSLmode := TSL_AVAILABLE\<rparr>) else (False, s))
      | TSL_AVAILABLE \<Rightarrow>
          (let write = tsl_write io 0 + tsl_write io 1 + tsl_write io 2 + tsl_write io 3
                       + tsl_write io 4 + tsl_write io 5
           in (write = 0,
               s\<lparr>TSLmode := (if write = 0 then TSL_INITIALIZED else TSL_NOTAVAILABLE)\<rparr>))
      | TSL_INITIALIZED \<Rightarrow>
          (if adcStartTime s = 0 then
             (let write = tsl_write io 0 + tsl_write io 1
              in (write = 0,
                  s\<lparr>adcStartTime := tsl_millis io,
                    TSLmode := (if write = 0 then TSL_INITIALIZED else TSL_NOTAVAILABLE)\<rparr>))
           else if adcStartTime s + TSL2591_ADC_TIME < tsl_millis io then
             (let ir = tsl_ir io;
                  full = tsl_full io;
                  write = tsl_write io 0 + tsl_write io 1;
                  s1 = s\<lparr>adcStartTime := 0\<rparr>;
                  visCumulative = fullCumulative s1 - irCumulative s1
              in if full < ir then (True, s1)
                 else
                   (let s2 =
                      (if niter s1 < 5 \<or> (visCumulative < 500 \<and> niter s1 < 150) then
                         s1\<lparr>niter := niter s1 + 1,
                            fullCumulative := fullCumulative s1 + full,
                            irCumulative := irCumulative s1 + ir\<rparr>
                       else
                         (let VIS = of_int visCumulative / (29628 * of_int (niter s1));
                              mpsas = 12.6 - 1.086 * ln VIS + SQMOffset_value s1 + FILTER_COEFF
                          in s1\<lparr>SQM_READING := mpsas, niter := 0,
                               irCumulative := 0, fullCumulative := 0\<rparr>))
                    in (write = 0,
                        s2\<lparr>TSLmode :=
                             (if write = 0 then TSL_INITIALIZED else TSL_NOTAVAILABLE)\<rparr>)))
           else (False, s)))"

text \<open>A run of the acquirer: one call of \<open>readTSL\<close> per element, in order.\<close>

fun readTSL_run :: "tsl_io list \<Rightarrow> tsl \<Rightarrow> tsl" where
  "readTSL_run [] s = s"
| "readTSL_run (io # ios) s = readTSL_run ios (snd (readTSL io s))"

text \<open>
  The two calls of one integration cycle with a reachable sensor and successful writes:
  the first arms the integration at time 1, the second, at time 752, reads the sample.
\<close>

definition tsl_cycle :: "int \<times> int \<Rightarrow> tsl_io list" where
  "tsl_cycle sample =
     [\<lparr>tsl_i2cHandle = 0, tsl_write = (\<lambda>k. 0), tsl_millis = 1, tsl_ir = 0, tsl_full = 0\<rparr>,
      \<lparr>tsl_i2cHandle = 0, tsl_write = (\<lambda>k. 0), tsl_millis = 752,
        tsl_ir = snd sample, tsl_full = fst sample\<rparr>]"

section \<open>The power sensor\<close>

text \<open>
  The members and properties that \<open>readPower\<close> uses. \<open>pw_i2c\<close> records the buffers written
  to the converter.
\<close>

record power =
  pw_revision :: int
  powerIndex :: int
  PowerReadings_VIN :: real
  PowerReadings_VREG :: real
  PowerReadings_ITOT :: real
  PowerReadings_PTOT :: real
  PowerReadings_AH :: real
  PowerReadings_WH :: real
  PowerReadings_s :: IPState
  energyAs :: real
  energyWs :: real
  pw_i2c :: "8 word list list"

text \<open>
  What one call of \<open>readPower\<close> gets from outside: the results of \<open>lgI2cOpen\<close>,
  \<open>lgI2cWriteDevice\<close> and \<open>lgI2cReadDevice\<close>, and the two bytes read.
\<close>

record power_io =
  pw_i2cHandle :: int
  pw_written :: int
  pw_read :: int
  pw_readBuf0 :: "8 word"
  pw_readBuf1 :: "8 word"

text \<open>
  \<open>int16_t val = readBuf[0] * 255 + readBuf[1]\<close>. The buffer is of \<open>char\<close>, unsigned on
  the ARM targets of the driver; the sum is narrowed to 16 bits and read as signed.
\<close>

definition power_val :: "8 word \<Rightarrow> 8 word \<Rightarrow> int" where
  "power_val b0 b1 = sint (word_of_int (uint b0 * 255 + uint b1) :: 16 word)"

text \<open>The configuration byte that selects the channel, by index.\<close>

definition power_config :: "int \<Rightarrow> 8 word" where
  "power_config idx =
     (if idx = 2 then 0xD3 else if idx = 4 then 0xB3 else 0xC3)"

text \<open>
  The buffers sent to the converter: three bytes to start a conversion on the channel of
  the index, one byte to point at the conversion register before a read.
\<close>

definition trigger_command :: "int \<Rightarrow> 8 word list" where
  "trigger_command idx = [0x01, power_config idx, 0x23]"

definition read_command :: "8 word list" where
  "read_command = [0x00]"

definition readPower :: "power_io \<Rightarrow> power \<Rightarrow> bool \<times> power" where
  "readPower io s =
     (if pw_revision s < 4 then (False, s)
      else if 0 \<le> pw_i2cHandle io then
        (let s1 =
           (if powerIndex s mod 2 = 0 then
              (let s' = s\<lparr>pw_i2c := pw_i2c s @ [trigger_command (powerIndex s)]\<rparr>
               in if pw_written io \<noteq> 0 then s'\<lparr>PowerReadings_s := IPS_ALERT\<rparr> else s')
            else
              (let s' = s\<lparr>PowerReadings_s := IPS_BUSY, pw_i2c := pw_i2c s @ [read_command]\<rparr>
               in if pw_written io = 0 then
                    (if 0 < pw_read io then
                       (let val = real_of_int (power_val (pw_readBuf0 io) (pw_readBuf1 io));
                            a = (if powerIndex s' = 1
                                 then s'\<lparr>PowerReadings_VIN := val / 32768 * 4.096 * 6.6\<rparr>
                                 else if powerIndex s' = 3
                                 then s'\<lparr>PowerReadings_VREG := val / 32768 * 4.096 * 6.6\<rparr>
                                 else if powerIndex s' = 5
                                 then s'\<lparr>PowerReadings_ITOT := val / 32768 * 4.096 * 1 * 20\<rparr>
                                 else s');
                            b = a\<lparr>PowerReadings_PTOT :=
                                    PowerReadings_VIN a * PowerReadings_ITOT a\<rparr>;
                            c = b\<lparr>energyAs := energyAs b + PowerReadings_ITOT b * 0.4\<rparr>;
                            d = c\<lparr>energyWs := energyWs c
                                    + PowerReadings_VIN c * PowerReadings_ITOT c * 0.4\<rparr>
                        in d\<lparr>PowerReadings_AH := energyAs d / 3600,
                             PowerReadings_WH := energyWs d / 3600,
                             PowerReadings_s := IPS_OK\<rparr>)
                     else s'\<lparr>PowerReadings_s := IPS_ALERT\<rparr>)
                  else s'\<lparr>PowerReadings_s := IPS_ALERT\<rparr>));
             s2 = s1\<lparr>powerIndex := powerIndex s1 + 1\<rparr>
         in (True, if 5 < powerIndex s2 then s2\<lparr>powerIndex := 0\<rparr> else s2))
      else (False, s))"

section \<open>A concrete device\<close>

text \<open>
  A connected device as \<open>initProperties\<close> leaves it: position bounds 0 and 10000, maximum
  position between 1000 and 100000, full-step resolution (the switch \<open>RES_1\<close> is on), hold
  power 0, compensation disabled, no position file.
\<close>

text \<open>
  Modelled from the spec: the initial values of the members declared in
  \<open>astrolink4pi.h\<close>, which is not among the sources. The remembered direction starts at
  0, "no previous move", no backlash ticks remain, and no worker has been spawned.
\<close>

definition startup_focuser :: focuser where
  "startup_focuser =
     \<lparr>isConnected = True, revision = 4,
      FocusAbsPos_value = 0, FocusAbsPos_min = 0, FocusAbsPos_max = 10000,
      FocusAbsPos_step = 100, FocusAbsPos_s = IPS_IDLE,
      FocusRelPos_value = 100, FocusRelPos_min = 0, FocusRelPos_max = 10000,
      FocusRelPos_step = 100, FocusRelPos_s = IPS_IDLE,
      FocusMaxPos_value = 10000, FocusMaxPos_min = 1000, FocusMaxPos_max = 100000,
      FocusMaxPos_step = 1000,
      FocusBacklash_value = 0, FocusReverse_enabled = False,
      StepperCurrent_value = 400, holdPower = 0, resolution = 1,
      lastDirection = 0, backlashTicksRemaining = 0, abort_flag = False,
      motionThread = None, posFile = None, posFile_writable = True,
      FocusTemperature_value = 0, lastTemperature = 0,
      TemperatureCompensate_on = False, TemperatureCoef_value = 0,
      FocuserInfo_step_size = 0, FocuserInfo_cfz = 0, FocuserInfo_steps_cfz = 0,
      FocuserInfo_s = IPS_IDLE, FocuserTravel_value = 10, Scope_diam = 0, Scope_fl = 0,
      hw = [], pulse_log = []\<rparr>"

text \<open>
  The same device with compensation enabled, 10 steps per degree, 30 steps per critical
  focus zone, the last recorded temperature 0 and the current temperature \<open>T\<close>.
\<close>

definition warm_focuser :: "real \<Rightarrow> focuser" where
  "warm_focuser T = startup_focuser\<lparr>TemperatureCompensate_on := True,
      FocusTemperature_value := T, TemperatureCoef_value := 10, FocuserInfo_steps_cfz := 30\<rparr>"

text \<open>
  The same device with 50 steps per degree and the current temperature 0.3 as a double
  holds it: \<open>5404319552844595 / 2^54\<close>, just below 0.3.
\<close>

definition boundary_focuser :: focuser where
  "boundary_focuser = startup_focuser\<lparr>TemperatureCompensate_on := True,
      FocusTemperature_value := 5404319552844595 / 18014398509481984,
      TemperatureCoef_value := 50, FocuserInfo_steps_cfz := 30\<rparr>"

text \<open>
  The same device at 1/32 step, at position 1001 of 320000: not on a grid point of the 1/16
  resolution.
\<close>

definition fine_focuser :: focuser where
  "fine_focuser = startup_focuser\<lparr>resolution := 32, FocusAbsPos_value := 1001,
      FocusAbsPos_max := 320000, FocusMaxPos_value := 320000\<rparr>"

text \<open>An initialised light sensor with empty sums, no integration under way.\<close>

definition tsl_ready :: tsl where
  "tsl_ready = \<lparr>TSLmode = TSL_INITIALIZED, adcStartTime = 0, niter = 0, fullCumulative = 0,
      irCumulative = 0, SQMOffset_value = 0, SQM_READING = 0\<rparr>"

text \<open>A revision 4 board at the start of the power cycle, with nothing accumulated.\<close>

definition power_ready :: power where
  "power_ready = \<lparr>pw_revision = 4, powerIndex = 0, PowerReadings_VIN = 0,
      PowerReadings_VREG = 0, PowerReadings_ITOT = 0, PowerReadings_PTOT = 0,
      PowerReadings_AH = 0, PowerReadings_WH = 0, PowerReadings_s = IPS_IDLE,
      energyAs = 0, energyWs = 0, pw_i2c = []\<rparr>"


section \<open>The worker's loop\<close>

text \<open>
  A direction of 1 or -1 is a unit of the 32-bit ring: it is its own inverse. The distance
  left to the target, measured along the direction, drops by one with each counted step.
\<close>

lemma motor_pulse_pulse_log:
  "motor_pulse d c b s = (c', b', s') \<Longrightarrow>
     pulse_log s' = pulse_log s @ [c'] \<and>
     c' = (if b \<le> 0 then c + word_of_int d else c) \<and>
     b' = (if b \<le> 0 then b else b - 1)"
  by (auto simp: motor_pulse_def Let_def split: if_splits)

text \<open>Each iteration raises and lowers the step line once, and leaves the resolution.\<close>

lemma motor_pulse_step_line:
  "motor_pulse d c b s = (c', b', s') \<Longrightarrow>
     filter is_step_write (hw s')
       = filter is_step_write (hw s) @ [GpioWrite STP_PIN True, GpioWrite STP_PIN False] \<and>
     resolution s' = resolution s"
  by (auto simp: motor_pulse_def Let_def split: if_splits)

lemma unit_dist_zero:
  fixes d :: "32 word"
  assumes "d * d = 1" "(t - c) * d = 0"
  shows "c = t"
proof -
  have "(t - c) * (d * d) = 0" using assms(2) by (simp add: mult.assoc [symmetric])
  then show ?thesis using assms(1) by simp
qed

lemma unit_dist_step:
  fixes d :: "32 word"
  assumes "d * d = 1" "unat ((t - c) * d) = Suc m"
  shows "unat ((t - (c + d)) * d) = m"
proof -
  have "(t - (c + d)) * d = (t - c) * d - d * d" by (simp add: algebra_simps)
  then have e: "(t - (c + d)) * d = (t - c) * d - 1" using assms(1) by simp
  have "(t - c) * d \<noteq> 0" using assms(2) by auto
  then have "unat ((t - c) * d - 1) = unat ((t - c) * d) - 1"
    by (simp add: unat_minus_one)
  then show ?thesis using e assms(2) by simp
qed

text \<open>
  With no backlash left and no abort, the loop counts one step per pulse until the target
  is reached; the positions after the pulses are the start plus 1, 2, ... directions.
\<close>

lemma counted_phase:
  fixes d :: "32 word"
  assumes "d * d = 1" "word_of_int dir = d" "b \<le> 0" "\<forall>k. \<not> aborts k"
  shows "unat ((t - c) * d) = n \<Longrightarrow>
     \<exists>s'. motor_loop t dir aborts k c b s = Some (t, b, s') \<and>
          pulse_log s' = pulse_log s @ map (\<lambda>i. c + of_nat i * d) [1..<Suc n] \<and>
          filter is_step_write (hw s')
            = filter is_step_write (hw s)
              @ concat (replicate n [GpioWrite STP_PIN True, GpioWrite STP_PIN False]) \<and>
          resolution s' = resolution s"
proof (induction n arbitrary: c k s)
  case 0
  then have "(t - c) * d = 0" by (simp add: unat_eq_0)
  then have "c = t" by (rule unit_dist_zero [OF assms(1)])
  then show ?case by (subst motor_loop.simps) simp
next
  case (Suc m)
  have ne: "c \<noteq> t" using Suc.prems by auto
  obtain s1 where p: "motor_pulse dir c b s = (c + d, b, s1)"
    and l1: "pulse_log s1 = pulse_log s @ [c + d]"
    using assms(2,3) by (cases "motor_pulse dir c b s") (auto dest!: motor_pulse_pulse_log)
  have h1: "filter is_step_write (hw s1)
      = filter is_step_write (hw s) @ [GpioWrite STP_PIN True, GpioWrite STP_PIN False]"
    and r1: "resolution s1 = resolution s"
    using motor_pulse_step_line [OF p] by simp_all
  have "unat ((t - (c + d)) * d) = m" using unit_dist_step [OF assms(1) Suc.prems] .
  from Suc.IH [OF this, of "Suc k" s1] obtain s' where
    r: "motor_loop t dir aborts (Suc k) (c + d) b s1 = Some (t, b, s')"
    and l: "pulse_log s' = pulse_log s1 @ map (\<lambda>i. c + d + of_nat i * d) [1..<Suc m]"
    and h: "filter is_step_write (hw s')
      = filter is_step_write (hw s1)
        @ concat (replicate m [GpioWrite STP_PIN True, GpioWrite STP_PIN False])"
    and rr: "resolution s' = resolution s1"
    by blast
  have m: "map (\<lambda>i. c + of_nat i * d) [1..<Suc (Suc m)]
         = (c + d) # map (\<lambda>i. c + d + of_nat i * d) [1..<Suc m]"
  proof -
    have "[1..<Suc (Suc m)] = 1 # map Suc [1..<Suc m]"
      by (simp add: upt_conv_Cons map_Suc_upt del: upt_Suc)
    then show ?thesis by (simp add: o_def algebra_simps del: upt_Suc)
  qed
  have "motor_loop t dir aborts k c b s = Some (t, b, s')"
    using ne assms(4) p r by (subst motor_loop.simps) simp
  then show ?case using l l1 m h h1 rr r1 by (simp del: upt_Suc)
qed

text \<open>While backlash ticks remain, each pulse uses one up and the position stays.\<close>

lemma backlash_phase:
  assumes "c \<noteq> t" "\<forall>k. \<not> aborts k"
  shows "\<exists>s'. motor_loop t dir aborts k c (int n) s = motor_loop t dir aborts (k + n) c 0 s' \<and>
          pulse_log s' = pulse_log s @ replicate n c \<and>
          filter is_step_write (hw s')
            = filter is_step_write (hw s)
              @ concat (replicate n [GpioWrite STP_PIN True, GpioWrite STP_PIN False]) \<and>
          resolution s' = resolution s"
proof (induction n arbitrary: k s)
  case 0
  then show ?case by auto
next
  case (Suc m)
  obtain s1 where p: "motor_pulse dir c (int (Suc m)) s = (c, int m, s1)"
    and l1: "pulse_log s1 = pulse_log s @ [c]"
    by (cases "motor_pulse dir c (int (Suc m)) s") (auto dest!: motor_pulse_pulse_log)
  have h1: "filter is_step_write (hw s1)
      = filter is_step_write (hw s) @ [GpioWrite STP_PIN True, GpioWrite STP_PIN False]"
    and r1: "resolution s1 = resolution s"
    using motor_pulse_step_line [OF p] by simp_all
  from Suc.IH [of "Suc k" s1] obtain s' where
    r: "motor_loop t dir aborts (Suc k) c (int m) s1 = motor_loop t dir aborts (Suc k + m) c 0 s'"
    and l: "pulse_log s' = pulse_log s1 @ replicate m c"
    and h: "filter is_step_write (hw s')
      = filter is_step_write (hw s1)
        @ concat (replicate m [GpioWrite STP_PIN True, GpioWrite STP_PIN False])"
    and rr: "resolution s' = resolution s1"
    by blast
  have "motor_loop t dir aborts k c (int (Suc m)) s = motor_loop t dir aborts (k + Suc m) c 0 s'"
    using assms p r by (subst motor_loop.simps) simp
  then show ?case using l l1 h h1 rr r1 by (auto simp: replicate_append_same)
qed


lemma worker_run:
  fixes d :: "32 word"
  assumes "d * d = 1" "word_of_int dir = d" "c \<noteq> t" "\<forall>k. \<not> aborts k"
  shows "\<exists>s'. motor_loop t dir aborts k c b s = Some (t, min b 0, s') \<and>
          pulse_log s' = pulse_log s @ replicate (nat b) c
             @ map (\<lambda>i. c + of_nat i * d) [1..<Suc (unat ((t - c) * d))] \<and>
          filter is_step_write (hw s')
            = filter is_step_write (hw s)
              @ concat (replicate (nat b + unat ((t - c) * d))
                  [GpioWrite STP_PIN True, GpioWrite STP_PIN False]) \<and>
          resolution s' = resolution s"
proof (cases "b \<le> 0")
  case True
  then show ?thesis
    using counted_phase [OF assms(1,2) True assms(4) refl, where t = t and c = c and k = k and s = s]
    by (simp add: min_def del: upt_Suc)
next
  case False
  then have b: "b = int (nat b)" by simp
  obtain s1 where
    r1: "motor_loop t dir aborts k c (int (nat b)) s = motor_loop t dir aborts (k + nat b) c 0 s1"
    and l1: "pulse_log s1 = pulse_log s @ replicate (nat b) c"
    and h1: "filter is_step_write (hw s1)
      = filter is_step_write (hw s)
        @ concat (replicate (nat b) [GpioWrite STP_PIN True, GpioWrite STP_PIN False])"
    and q1: "resolution s1 = resolution s"
    using backlash_phase [OF assms(3,4)] by blast
  obtain s' where
    r2: "motor_loop t dir aborts (k + nat b) c 0 s1 = Some (t, 0, s')"
    and l2: "pulse_log s' = pulse_log s1 @ map (\<lambda>i. c + of_nat i * d) [1..<Suc (unat ((t - c) * d))]"
    and h2: "filter is_step_write (hw s')
      = filter is_step_write (hw s1)
        @ concat (replicate (unat ((t - c) * d))
            [GpioWrite STP_PIN True, GpioWrite STP_PIN False])"
    and q2: "resolution s' = resolution s1"
    using counted_phase [OF assms(1,2) order_refl assms(4) refl,
        where t = t and c = c and k = "k + nat b" and s = s1] by blast
  have "motor_loop t dir aborts k c b s = Some (t, 0, s')"
    using r1 r2 b by metis
  then show ?thesis
    using l1 l2 h1 h2 q1 q2 False by (auto simp: min_def replicate_add simp del: upt_Suc)
qed

section \<open>Moves\<close>

lemma MoveAbsFocuser_busy:
  assumes "FocusAbsPos_min s \<le> uint t" "uint t \<le> FocusAbsPos_max s"
    "uint t \<noteq> FocusAbsPos_value s"
  shows "\<exists>s'. MoveAbsFocuser s t = (IPS_BUSY, s') \<and>
     motionThread s' = Some (t, (if FocusAbsPos_value s < uint t then 1 else - 1),
        (if lastDirection s \<noteq> 0
            \<and> (if FocusAbsPos_value s < uint t then 1 else - 1) \<noteq> lastDirection s
            \<and> FocusBacklash_value s \<noteq> 0
         then FocusBacklash_value s else 0)) \<and>
     backlashTicksRemaining s' = (if lastDirection s \<noteq> 0
            \<and> (if FocusAbsPos_value s < uint t then 1 else - 1) \<noteq> lastDirection s
            \<and> FocusBacklash_value s \<noteq> 0
         then FocusBacklash_value s else 0) \<and>
     lastDirection s' = (if FocusAbsPos_value s < uint t then 1 else - 1) \<and>
     FocusAbsPos_value s' = FocusAbsPos_value s \<and>
     pulse_log s' = pulse_log s \<and> lastTemperature s' = lastTemperature s \<and>
     FocusTemperature_value s' = FocusTemperature_value s \<and>
     posFile s' = posFile s \<and> resolution s' = resolution s \<and>
     filter is_step_write (hw s') = filter is_step_write (hw s)"
  using assms by (simp add: MoveAbsFocuser_def Let_def setCurrent_def)

lemma motor_exit_fields:
  "FocusAbsPos_value (motor_exit c s) = uint c"
  "pulse_log (motor_exit c s) = pulse_log s"
  "lastTemperature (motor_exit c s) = FocusTemperature_value s"
  "resolution (motor_exit c s) = resolution s"
  "filter is_step_write (hw (motor_exit c s)) = filter is_step_write (hw s)"
  by (simp_all add: motor_exit_def Let_def setCurrent_def savePosition_def split: option.splits)

lemma dist_up:
  assumes "0 \<le> p" "p < uint (t :: 32 word)"
  shows "unat ((t - word_of_int p) * 1) = nat (uint t - p)"
proof -
  have u: "uint (word_of_int p :: 32 word) = p"
    using assms uint_lt2p [of t] by (simp add: uint_word_of_int)
  then have "uint (t - word_of_int p) = uint t - p" using assms by (simp add: uint_sub_if')
  then show ?thesis by (simp add: unat_eq_nat_uint)
qed

lemma dist_down:
  assumes "p < 2 ^ 32" "uint (t :: 32 word) < p"
  shows "unat ((t - word_of_int p) * (- 1)) = nat (p - uint t)"
proof -
  have "0 \<le> p" using assms(2) uint_ge_0 [of t] by linarith
  then have u: "uint (word_of_int p :: 32 word) = p"
    using assms by (simp add: uint_word_of_int)
  then have "uint (word_of_int p - t) = p - uint t" using assms by (simp add: uint_sub_if')
  then show ?thesis by (simp add: unat_eq_nat_uint)
qed

text \<open>
  An accepted move followed by its worker, when nothing sets the abort flag: the worker
  leaves its loop at the target, after the backlash pulses and one counted pulse per tick
  of distance.
\<close>

lemma move_and_run:
  assumes "FocusAbsPos_min s = 0" and "uint t \<le> FocusAbsPos_max s"
    and "0 \<le> FocusAbsPos_value s" and "FocusAbsPos_value s < 2 ^ 32"
    and "uint t \<noteq> FocusAbsPos_value s" and "\<forall>k. \<not> aborts k"
  shows "\<exists>s' s''. MoveAbsFocuser s t = (IPS_BUSY, s') \<and>
      lastDirection s' = (if FocusAbsPos_value s < uint t then 1 else - 1) \<and>
      backlashTicksRemaining s' =
        (if lastDirection s \<noteq> 0 \<and> lastDirection s' \<noteq> lastDirection s
            \<and> FocusBacklash_value s \<noteq> 0
         then FocusBacklash_value s else 0) \<and>
      motionThread s' = Some (t, lastDirection s', backlashTicksRemaining s') \<and>
      motor_thread s' aborts = Some s'' \<and>
      FocusAbsPos_value s'' = uint t \<and>
      pulse_log s'' = pulse_log s
        @ replicate (nat (backlashTicksRemaining s')) (to_uint32 (FocusAbsPos_value s))
        @ map (\<lambda>i. to_uint32 (FocusAbsPos_value s) + of_nat i * word_of_int (lastDirection s'))
            [1..<Suc (nat \<bar>uint t - FocusAbsPos_value s\<bar>)] \<and>
      filter is_step_write (hw s'')
        = filter is_step_write (hw s)
          @ concat (replicate
              (nat (backlashTicksRemaining s') + nat \<bar>uint t - FocusAbsPos_value s\<bar>)
              [GpioWrite STP_PIN True, GpioWrite STP_PIN False])"
proof -
  define p where "p = FocusAbsPos_value s"
  define c :: "32 word" where "c = to_uint32 p"
  define dir :: int where "dir = (if p < uint t then 1 else - 1)"
  define d :: "32 word" where "d = word_of_int dir"
  have rng: "FocusAbsPos_min s \<le> uint t" using assms(1) by simp
  from MoveAbsFocuser_busy [OF rng assms(2,5)] obtain s' where
    mv: "MoveAbsFocuser s t = (IPS_BUSY, s')"
    and th: "motionThread s' = Some (t, dir,
        (if lastDirection s \<noteq> 0 \<and> dir \<noteq> lastDirection s \<and> FocusBacklash_value s \<noteq> 0
         then FocusBacklash_value s else 0))"
    and bl: "backlashTicksRemaining s' =
        (if lastDirection s \<noteq> 0 \<and> dir \<noteq> lastDirection s \<and> FocusBacklash_value s \<noteq> 0
         then FocusBacklash_value s else 0)"
    and ld: "lastDirection s' = dir"
    and pv: "FocusAbsPos_value s' = p"
    and pl: "pulse_log s' = pulse_log s"
    and hs: "filter is_step_write (hw s') = filter is_step_write (hw s)"
    unfolding dir_def p_def by blast
  have uc: "uint c = p"
    using assms(3,4) by (simp add: c_def to_uint32_def p_def uint_word_of_int)
  have cne: "c \<noteq> t" using uc assms(5) p_def by auto
  have dd: "d * d = 1" by (simp add: d_def dir_def)
  have n: "unat ((t - c) * d) = nat \<bar>uint t - p\<bar>"
  proof (cases "p < uint t")
    case True
    then show ?thesis
      using dist_up [of p t] assms(3) by (simp add: d_def dir_def c_def to_uint32_def p_def)
  next
    case False
    then have "uint t < p" using assms(5) p_def by simp
    then show ?thesis
      using dist_down [of p t] assms(4) False
      by (simp add: d_def dir_def c_def to_uint32_def p_def)
  qed
  from worker_run [OF dd _ cne assms(6), where dir = dir and k = 0
      and b = "backlashTicksRemaining s'" and s = s']
  obtain s1 where
    run: "motor_loop t dir aborts 0 c (backlashTicksRemaining s') s'
            = Some (t, min (backlashTicksRemaining s') 0, s1)"
    and l1: "pulse_log s1 = pulse_log s' @ replicate (nat (backlashTicksRemaining s')) c
             @ map (\<lambda>i. c + of_nat i * d) [1..<Suc (unat ((t - c) * d))]"
    and h1: "filter is_step_write (hw s1)
      = filter is_step_write (hw s')
        @ concat (replicate (nat (backlashTicksRemaining s') + unat ((t - c) * d))
            [GpioWrite STP_PIN True, GpioWrite STP_PIN False])"
    using d_def by blast
  have mt: "motor_thread s' aborts = Some (motor_exit t s1)"
    using th bl run pv by (simp add: motor_thread_def c_def)
  show ?thesis
    using mv th bl ld mt l1 pl n h1 hs
    by (simp add: motor_exit_fields c_def d_def dir_def p_def del: upt_Suc)
qed


text \<open>
  Claim C1. From every position that a \<open>uint32_t\<close> holds and for every target in
  \<open>[0, FocusAbsPos_max]\<close> other than the position, \<open>MoveAbsFocuser\<close> starts a worker, and
  the worker, with the abort flag never set, terminates with the position equal to the
  target. The pulses of the move are first the backlash pulses, after each of which the
  position counter still holds the start value, and then one pulse per tick of distance,
  each advancing the counter by the direction.
\<close>

theorem move_then_worker_reaches_target:
  assumes "FocusAbsPos_min s = 0" and "uint t \<le> FocusAbsPos_max s"
    and "0 \<le> FocusAbsPos_value s" and "FocusAbsPos_value s < 2 ^ 32"
    and "uint t \<noteq> FocusAbsPos_value s" and "\<forall>k. \<not> aborts k"
  shows "\<exists>s' s''. MoveAbsFocuser s t = (IPS_BUSY, s') \<and>
      motor_thread s' aborts = Some s'' \<and>
      FocusAbsPos_value s'' = uint t \<and>
      pulse_log s'' = pulse_log s
        @ replicate (nat (backlashTicksRemaining s')) (to_uint32 (FocusAbsPos_value s))
        @ map (\<lambda>i. to_uint32 (FocusAbsPos_value s) + of_nat i * word_of_int (lastDirection s'))
            [1..<Suc (nat \<bar>uint t - FocusAbsPos_value s\<bar>)]"
  using move_and_run [OF assms] by blast

theorem move_then_worker_reaches_target_witness:
  "\<exists>s' s''. MoveAbsFocuser (startup_focuser\<lparr>lastDirection := - 1, FocusBacklash_value := 2\<rparr>) 3
        = (IPS_BUSY, s') \<and>
      motor_thread s' (\<lambda>k. False) = Some s'' \<and>
      FocusAbsPos_value s'' = 3 \<and>
      pulse_log s'' = [0, 0, 1, 2, 3]"
proof -
  let ?s = "startup_focuser\<lparr>lastDirection := - 1, FocusBacklash_value := 2\<rparr>"
  have u: "[1..<Suc 3] = [1, 2, 3]" by (simp add: upt_rec)
  from move_then_worker_reaches_target [of ?s 3 "\<lambda>k. False"]
  obtain s' s'' where a: "MoveAbsFocuser ?s 3 = (IPS_BUSY, s')"
    "motor_thread s' (\<lambda>k. False) = Some s''"
      "FocusAbsPos_value s'' = 3"
      "pulse_log s'' = pulse_log ?s
        @ replicate (nat (backlashTicksRemaining s')) (to_uint32 (FocusAbsPos_value ?s))
        @ map (\<lambda>i. to_uint32 (FocusAbsPos_value ?s) + of_nat i * word_of_int (lastDirection s'))
            [1..<Suc (nat \<bar>uint (3 :: 32 word) - FocusAbsPos_value ?s\<bar>)]"
    by (auto simp: startup_focuser_def)
  have b: "backlashTicksRemaining s' = 2" "lastDirection s' = 1"
    using a(1) by (auto simp: MoveAbsFocuser_def Let_def setCurrent_def startup_focuser_def)
  have r: "replicate 2 (0 :: 32 word) = [0, 0]" by (simp add: numeral_2_eq_2)
  show ?thesis
    using a b u r by (simp add: startup_focuser_def to_uint32_def del: upt_Suc)
qed

text \<open>
  Claim C2. With the lower bound at 0, where \<open>initProperties\<close> puts it,
  \<open>MoveAbsFocuser\<close> returns the alert status exactly for the targets outside
  \<open>[0, FocusAbsPos_max]\<close>; a rejected request leaves the whole state as it was (no hardware
  write, no direction or backlash update, no worker); a target in range that equals the
  position returns the OK status, again with the state untouched.
\<close>

theorem MoveAbsFocuser_rejects_out_of_range:
  assumes "FocusAbsPos_min s = 0"
  shows "(fst (MoveAbsFocuser s t) = IPS_ALERT
            \<longleftrightarrow> \<not> (0 \<le> uint t \<and> uint t \<le> FocusAbsPos_max s)) \<and>
         (\<not> (0 \<le> uint t \<and> uint t \<le> FocusAbsPos_max s)
            \<longrightarrow> MoveAbsFocuser s t = (IPS_ALERT, s)) \<and>
         (uint t \<le> FocusAbsPos_max s \<and> uint t = FocusAbsPos_value s
            \<longrightarrow> MoveAbsFocuser s t = (IPS_OK, s))"
proof -
  have a: "MoveAbsFocuser s t = (IPS_ALERT, s)" if "FocusAbsPos_max s < uint t"
    using that by (simp add: MoveAbsFocuser_def)
  have b: "fst (MoveAbsFocuser s t) \<noteq> IPS_ALERT" if "uint t \<le> FocusAbsPos_max s"
    using that assms by (simp add: MoveAbsFocuser_def Let_def)
  have c: "MoveAbsFocuser s t = (IPS_OK, s)"
    if "uint t \<le> FocusAbsPos_max s" and "uint t = FocusAbsPos_value s"
    using that(1) that(2) [symmetric] assms by (simp add: MoveAbsFocuser_def)
  show ?thesis using a b c by (cases "uint t \<le> FocusAbsPos_max s") auto
qed

theorem MoveAbsFocuser_rejects_out_of_range_witness:
  "MoveAbsFocuser startup_focuser 10001 = (IPS_ALERT, startup_focuser) \<and>
   MoveAbsFocuser startup_focuser 0 = (IPS_OK, startup_focuser) \<and>
   fst (MoveAbsFocuser startup_focuser 10000) \<noteq> IPS_ALERT"
proof -
  have m: "FocusAbsPos_min startup_focuser = 0" by (simp add: startup_focuser_def)
  show ?thesis
    using MoveAbsFocuser_rejects_out_of_range [OF m, of 10001]
      MoveAbsFocuser_rejects_out_of_range [OF m, of 0]
      MoveAbsFocuser_rejects_out_of_range [OF m, of 10000]
    by (simp add: startup_focuser_def)
qed

lemma takeWhile_replicate_then:
  "P c \<Longrightarrow> \<not> P y \<Longrightarrow> takeWhile P (replicate b c @ y # ys) = replicate b c"
  by (induction b) auto

text \<open>
  Claim C3. For a move that follows an earlier one (the remembered direction is not 0),
  with a backlash setting that is not negative: the backlash budget handed to the worker
  is the configured value when that value is positive and the new direction differs from
  the remembered one, and 0 otherwise; and the worker's pulses begin with exactly that
  many pulses that leave the position counter at its start value, followed by a pulse
  that changes it. The pulses are pulses of the step line: the move raises and lowers the
  line once for every entry of the log, budget plus distance times in all, and writes
  nothing else to it.
\<close>

theorem reversal_injects_backlash:
  assumes "lastDirection s \<noteq> 0" and "0 \<le> FocusBacklash_value s"
    and "FocusAbsPos_min s = 0" and "uint t \<le> FocusAbsPos_max s"
    and "0 \<le> FocusAbsPos_value s" and "FocusAbsPos_value s < 2 ^ 32"
    and "uint t \<noteq> FocusAbsPos_value s" and "\<forall>k. \<not> aborts k"
  shows "\<exists>s' s'' new. MoveAbsFocuser s t = (IPS_BUSY, s') \<and>
      lastDirection s' = (if FocusAbsPos_value s < uint t then 1 else - 1) \<and>
      backlashTicksRemaining s' =
        (if 0 < FocusBacklash_value s \<and> lastDirection s' \<noteq> lastDirection s
         then FocusBacklash_value s else 0) \<and>
      motionThread s' = Some (t, lastDirection s', backlashTicksRemaining s') \<and>
      motor_thread s' aborts = Some s'' \<and>
      pulse_log s'' = pulse_log s @ new \<and>
      takeWhile (\<lambda>p. p = to_uint32 (FocusAbsPos_value s)) new
        = replicate (nat (backlashTicksRemaining s')) (to_uint32 (FocusAbsPos_value s)) \<and>
      nat (backlashTicksRemaining s') < length new \<and>
      length new = nat (backlashTicksRemaining s') + nat \<bar>uint t - FocusAbsPos_value s\<bar> \<and>
      filter is_step_write (hw s'')
        = filter is_step_write (hw s)
          @ concat (replicate (length new) [GpioWrite STP_PIN True, GpioWrite STP_PIN False])"
proof -
  define c where "c = to_uint32 (FocusAbsPos_value s)"
  from move_and_run [OF assms(3-8)] obtain s' s'' where
    mv: "MoveAbsFocuser s t = (IPS_BUSY, s')"
    and ld: "lastDirection s' = (if FocusAbsPos_value s < uint t then 1 else - 1)"
    and bl: "backlashTicksRemaining s' =
        (if lastDirection s \<noteq> 0 \<and> lastDirection s' \<noteq> lastDirection s
            \<and> FocusBacklash_value s \<noteq> 0
         then FocusBacklash_value s else 0)"
    and th: "motionThread s' = Some (t, lastDirection s', backlashTicksRemaining s')"
    and mt: "motor_thread s' aborts = Some s''"
    and pl: "pulse_log s'' = pulse_log s
        @ replicate (nat (backlashTicksRemaining s')) c
        @ map (\<lambda>i. c + of_nat i * word_of_int (lastDirection s'))
            [1..<Suc (nat \<bar>uint t - FocusAbsPos_value s\<bar>)]"
    and hs: "filter is_step_write (hw s'')
        = filter is_step_write (hw s)
          @ concat (replicate
              (nat (backlashTicksRemaining s') + nat \<bar>uint t - FocusAbsPos_value s\<bar>)
              [GpioWrite STP_PIN True, GpioWrite STP_PIN False])"
    unfolding c_def by blast
  define b where "b = nat (backlashTicksRemaining s')"
  define n where "n = nat \<bar>uint t - FocusAbsPos_value s\<bar>"
  define f :: "nat \<Rightarrow> 32 word" where "f = (\<lambda>i. c + of_nat i * word_of_int (lastDirection s'))"
  have npos: "0 < n" using assms(7) by (simp add: n_def)
  then have up: "[1..<Suc n] = 1 # [Suc 1..<Suc n]" by (simp add: upt_conv_Cons del: upt_Suc)
  have "(word_of_int (lastDirection s') :: 32 word) \<noteq> 0" using ld by simp
  then have f1: "f 1 \<noteq> c" by (simp add: f_def)
  define new where "new = replicate b c @ map f [1..<Suc n]"
  have pl': "pulse_log s'' = pulse_log s @ new"
    using pl by (simp add: new_def b_def n_def f_def)
  have tw: "takeWhile (\<lambda>p. p = c) new = replicate b c"
    unfolding new_def using f1 up by (simp add: takeWhile_replicate_then del: upt_Suc)
  have cnt: "length new = b + n" by (simp add: new_def)
  have len: "b < length new" using npos cnt by simp
  have hs': "filter is_step_write (hw s'')
        = filter is_step_write (hw s)
          @ concat (replicate (length new) [GpioWrite STP_PIN True, GpioWrite STP_PIN False])"
    using hs cnt by (simp add: b_def n_def)
  have bl': "backlashTicksRemaining s' =
        (if 0 < FocusBacklash_value s \<and> lastDirection s' \<noteq> lastDirection s
         then FocusBacklash_value s else 0)"
    using bl assms(1,2) by auto
  show ?thesis
    using mv ld bl' th mt pl' tw len cnt hs' unfolding b_def n_def c_def by blast
qed

theorem reversal_injects_backlash_witness:
  "\<exists>s' s'' new.
      MoveAbsFocuser (startup_focuser\<lparr>lastDirection := - 1, FocusBacklash_value := 2\<rparr>) 3
        = (IPS_BUSY, s') \<and>
      backlashTicksRemaining s' = 2 \<and> motionThread s' = Some (3, 1, 2) \<and>
      motor_thread s' (\<lambda>k. False) = Some s'' \<and> pulse_log s'' = new \<and>
      takeWhile (\<lambda>p. p = 0) new = [0, 0] \<and> 2 < length new \<and> length new = 5 \<and>
      filter is_step_write (hw s'')
        = [GpioWrite STP_PIN True, GpioWrite STP_PIN False,
           GpioWrite STP_PIN True, GpioWrite STP_PIN False,
           GpioWrite STP_PIN True, GpioWrite STP_PIN False,
           GpioWrite STP_PIN True, GpioWrite STP_PIN False,
           GpioWrite STP_PIN True, GpioWrite STP_PIN False]"
proof -
  let ?s = "startup_focuser\<lparr>lastDirection := - 1, FocusBacklash_value := 2\<rparr>"
  have r: "replicate 2 (0 :: 32 word) = [0, 0]" by (simp add: numeral_2_eq_2)
  have h: "lastDirection ?s \<noteq> 0" "0 \<le> FocusBacklash_value ?s" "FocusAbsPos_min ?s = 0"
    "uint (3 :: 32 word) \<le> FocusAbsPos_max ?s" "0 \<le> FocusAbsPos_value ?s"
    "FocusAbsPos_value ?s < 2 ^ 32" "uint (3 :: 32 word) \<noteq> FocusAbsPos_value ?s"
    "\<forall>k :: nat. \<not> False"
    by (simp_all add: startup_focuser_def)
  from reversal_injects_backlash [OF h] obtain s' s'' new where
    a: "MoveAbsFocuser ?s 3 = (IPS_BUSY, s')"
      "lastDirection s' = (if FocusAbsPos_value ?s < uint (3 :: 32 word) then 1 else - 1)"
      "backlashTicksRemaining s' =
        (if 0 < FocusBacklash_value ?s \<and> lastDirection s' \<noteq> lastDirection ?s
         then FocusBacklash_value ?s else 0)"
      "motionThread s' = Some (3, lastDirection s', backlashTicksRemaining s')"
      "motor_thread s' (\<lambda>k. False) = Some s''"
      "pulse_log s'' = pulse_log ?s @ new"
      "takeWhile (\<lambda>p. p = to_uint32 (FocusAbsPos_value ?s)) new
        = replicate (nat (backlashTicksRemaining s')) (to_uint32 (FocusAbsPos_value ?s))"
      "nat (backlashTicksRemaining s') < length new"
      "length new
         = nat (backlashTicksRemaining s') + nat \<bar>uint (3 :: 32 word) - FocusAbsPos_value ?s\<bar>"
      "filter is_step_write (hw s'')
        = filter is_step_write (hw ?s)
          @ concat (replicate (length new) [GpioWrite STP_PIN True, GpioWrite STP_PIN False])"
    by blast
  have d: "lastDirection s' = 1" using a(2) by (simp add: startup_focuser_def)
  have b: "backlashTicksRemaining s' = 2" using a(3) d by (simp add: startup_focuser_def)
  have z: "to_uint32 (FocusAbsPos_value ?s) = 0" "pulse_log ?s = []" "hw ?s = []"
    "FocusAbsPos_value ?s = 0"
    by (simp_all add: startup_focuser_def to_uint32_def)
  have n5: "length new = 5" using a(9) b z by simp
  have r5: "concat (replicate 5 [GpioWrite STP_PIN True, GpioWrite STP_PIN False])
      = [GpioWrite STP_PIN True, GpioWrite STP_PIN False,
         GpioWrite STP_PIN True, GpioWrite STP_PIN False,
         GpioWrite STP_PIN True, GpioWrite STP_PIN False,
         GpioWrite STP_PIN True, GpioWrite STP_PIN False,
         GpioWrite STP_PIN True, GpioWrite STP_PIN False]"
    by (simp add: eval_nat_numeral)
  show ?thesis using a(1,4,5,6,7,8,10) d b z r n5 r5 by simp
qed

text \<open>
  Claim C10. While the remembered direction still has its initial value 0, every move
  that \<open>MoveAbsFocuser\<close> starts gets a backlash budget of 0, whatever the configured
  backlash is. The initial value itself is declared in the header, which is not among the
  sources; \<open>startup_focuser\<close> takes it from the specification.
\<close>

theorem first_move_has_no_backlash:
  assumes "lastDirection s = 0" and "MoveAbsFocuser s t = (IPS_BUSY, s')"
  shows "backlashTicksRemaining s' = 0 \<and>
         (\<exists>direction. motionThread s' = Some (t, direction, 0))"
  using assms by (auto simp: MoveAbsFocuser_def Let_def setCurrent_def split: if_splits)

theorem first_move_has_no_backlash_witness:
  "\<exists>s'. MoveAbsFocuser (startup_focuser\<lparr>FocusBacklash_value := 50\<rparr>) 200 = (IPS_BUSY, s') \<and>
        backlashTicksRemaining s' = 0 \<and> motionThread s' = Some (200, 1, 0)"
proof -
  let ?s = "startup_focuser\<lparr>FocusBacklash_value := 50\<rparr>"
  obtain s' where m: "MoveAbsFocuser ?s 200 = (IPS_BUSY, s')"
    by (simp add: MoveAbsFocuser_def Let_def startup_focuser_def)
  have l: "lastDirection ?s = 0" by (simp add: startup_focuser_def)
  have d: "lastDirection s' = 1"
    using m by (auto simp: MoveAbsFocuser_def Let_def startup_focuser_def setCurrent_def)
  have t: "\<exists>direction. motionThread s' = Some (200, direction, 0)"
    using first_move_has_no_backlash [OF l m] by simp
  have "motionThread s' = Some (200, lastDirection s', 0)"
    using t m by (auto simp: MoveAbsFocuser_def Let_def startup_focuser_def setCurrent_def)
  then show ?thesis using first_move_has_no_backlash [OF l m] m d by simp
qed

section \<open>Floating-point rounding\<close>

text \<open>
  The exponent of a value that lies between two consecutive powers of two, and with it
  the rounded value.
\<close>

lemma binary_exponent_eq:
  assumes "2 powi e \<le> \<bar>x\<bar>" and "\<bar>x\<bar> < 2 powi (e + 1)" and "emin \<le> e"
  shows "binary_exponent emin x = e"
proof -
  have "(0 :: real) < 2 powi e" by simp
  then have p: "0 < \<bar>x\<bar>" using assms(1) by linarith
  have a: "(2 :: real) powr of_int e = 2 powi e" "(2 :: real) powr (of_int e + 1) = 2 powi (e + 1)"
    using powr_real_of_int' [of 2 e] powr_real_of_int' [of 2 "e + 1"] by simp_all
  have "of_int e \<le> log 2 \<bar>x\<bar>" using assms(1) p a by (simp add: le_log_iff)
  moreover have "log 2 \<bar>x\<bar> < of_int e + 1" using assms(2) p a by (simp add: log_less_iff)
  ultimately have "\<lfloor>log 2 \<bar>x\<bar>\<rfloor> = e" by (simp add: floor_eq_iff)
  then show ?thesis using assms(3) by (simp add: binary_exponent_def)
qed

lemma round_binary_eq:
  assumes "2 powi e \<le> \<bar>x\<bar>" and "\<bar>x\<bar> < 2 powi (e + 1)" and "emin \<le> e"
  shows "round_binary p emin x
     = of_int (round_half_even (x / 2 powi (e - (p - 1)))) * 2 powi (e - (p - 1))"
proof -
  have "(0 :: real) < 2 powi e" by simp
  then have "0 < \<bar>x\<bar>" using assms(1) by linarith
  then have "x \<noteq> 0" by auto
  then show ?thesis using binary_exponent_eq [OF assms] by (simp add: round_binary_def)
qed

lemma round_half_even_of_int: "round_half_even (of_int n) = n"
  by (simp add: round_half_even_def)

lemma round_binary_0: "round_binary p emin 0 = 0"
  by (simp add: round_binary_def)

text \<open>A value with at most \<open>p\<close> significant bits is not changed.\<close>

lemma round_binary_exact:
  assumes "2 powi e \<le> \<bar>x\<bar>" and "\<bar>x\<bar> < 2 powi (e + 1)" and "emin \<le> e"
    and "x = of_int n * 2 powi (e - (p - 1))"
  shows "round_binary p emin x = x"
proof -
  have "(2 :: real) powi (e - (p - 1)) \<noteq> 0" by simp
  then have "x / 2 powi (e - (p - 1)) = of_int n" using assms(4) by simp
  then show ?thesis
    using round_binary_eq [OF assms(1-3), of p] assms(4) by (simp add: round_half_even_of_int)
qed

lemma to_float_0: "to_float 0 = 0" and to_double_0: "to_double 0 = 0"
  by (simp_all add: to_float_def to_double_def round_binary_0)

lemma to_float_1: "to_float 1 = 1"
  unfolding to_float_def
proof (rule round_binary_exact [of 0 _ _ 8388608])
  show "2 powi 0 \<le> \<bar>1 :: real\<bar>" by simp
  show "\<bar>1 :: real\<bar> < 2 powi (0 + 1)" by simp
  show "- 126 \<le> (0 :: int)" by simp
  show "(1 :: real) = of_int 8388608 * 2 powi (0 - (24 - 1))" by (simp add: power_int_minus)
qed

lemma to_double_1: "to_double 1 = 1"
  unfolding to_double_def
proof (rule round_binary_exact [of 0 _ _ 4503599627370496])
  show "2 powi 0 \<le> \<bar>1 :: real\<bar>" by simp
  show "\<bar>1 :: real\<bar> < 2 powi (0 + 1)" by simp
  show "- 1022 \<le> (0 :: int)" by simp
  show "(1 :: real) = of_int 4503599627370496 * 2 powi (0 - (53 - 1))" by (simp add: power_int_minus)
qed

lemma to_float_2: "to_float 2 = 2"
  unfolding to_float_def
proof (rule round_binary_exact [of 1 _ _ 8388608])
  show "2 powi 1 \<le> \<bar>2 :: real\<bar>" by simp
  show "\<bar>2 :: real\<bar> < 2 powi (1 + 1)" by simp
  show "- 126 \<le> (1 :: int)" by simp
  show "(2 :: real) = of_int 8388608 * 2 powi (1 - (24 - 1))" by (simp add: power_int_minus)
qed

lemma to_double_2: "to_double 2 = 2"
  unfolding to_double_def
proof (rule round_binary_exact [of 1 _ _ 4503599627370496])
  show "2 powi 1 \<le> \<bar>2 :: real\<bar>" by simp
  show "\<bar>2 :: real\<bar> < 2 powi (1 + 1)" by simp
  show "- 1022 \<le> (1 :: int)" by simp
  show "(2 :: real) = of_int 4503599627370496 * 2 powi (1 - (53 - 1))" by (simp add: power_int_minus)
qed

lemma to_float_10: "to_float 10 = 10"
  unfolding to_float_def
proof (rule round_binary_exact [of 3 _ _ 10485760])
  show "2 powi 3 \<le> \<bar>10 :: real\<bar>" by simp
  show "\<bar>10 :: real\<bar> < 2 powi (3 + 1)" by simp
  show "- 126 \<le> (3 :: int)" by simp
  show "(10 :: real) = of_int 10485760 * 2 powi (3 - (24 - 1))" by (simp add: power_int_minus)
qed

lemma to_double_10: "to_double 10 = 10"
  unfolding to_double_def
proof (rule round_binary_exact [of 3 _ _ 5629499534213120])
  show "2 powi 3 \<le> \<bar>10 :: real\<bar>" by simp
  show "\<bar>10 :: real\<bar> < 2 powi (3 + 1)" by simp
  show "- 1022 \<le> (3 :: int)" by simp
  show "(10 :: real) = of_int 5629499534213120 * 2 powi (3 - (53 - 1))" by (simp add: power_int_minus)
qed

lemma to_float_20: "to_float 20 = 20"
  unfolding to_float_def
proof (rule round_binary_exact [of 4 _ _ 10485760])
  show "2 powi 4 \<le> \<bar>20 :: real\<bar>" by simp
  show "\<bar>20 :: real\<bar> < 2 powi (4 + 1)" by simp
  show "- 126 \<le> (4 :: int)" by simp
  show "(20 :: real) = of_int 10485760 * 2 powi (4 - (24 - 1))" by (simp add: power_int_minus)
qed

lemma to_double_20: "to_double 20 = 20"
  unfolding to_double_def
proof (rule round_binary_exact [of 4 _ _ 5629499534213120])
  show "2 powi 4 \<le> \<bar>20 :: real\<bar>" by simp
  show "\<bar>20 :: real\<bar> < 2 powi (4 + 1)" by simp
  show "- 1022 \<le> (4 :: int)" by simp
  show "(20 :: real) = of_int 5629499534213120 * 2 powi (4 - (53 - 1))" by (simp add: power_int_minus)
qed

text \<open>
  The double nearest to 0.3 lies below 0.3; its single-precision rounding lies above, and
  50 times that, a product that a double holds exactly, rounded to single precision lies
  above 15.
\<close>

lemma to_double_0_3: "to_double (5404319552844595 / 18014398509481984) = (5404319552844595 / 18014398509481984)"
  unfolding to_double_def
proof (rule round_binary_exact [of "- 2" _ _ 5404319552844595])
  show "2 powi (- 2) \<le> \<bar>(5404319552844595 / 18014398509481984) :: real\<bar>" by simp
  show "\<bar>(5404319552844595 / 18014398509481984) :: real\<bar> < 2 powi ((- 2) + 1)" by simp
  show "- 1022 \<le> ((- 2) :: int)" by simp
  show "((5404319552844595 / 18014398509481984) :: real) = of_int 5404319552844595 * 2 powi ((- 2) - (53 - 1))" by (simp add: power_int_minus)
qed

lemma to_float_double_0_3:
  "to_float (5404319552844595 / 18014398509481984) = 10066330 / 33554432"
proof -
  let ?x = "5404319552844595 / 18014398509481984 :: real"
  have u: "(2 :: real) powi (- 2 - (24 - 1)) = 1 / 33554432" by (simp add: power_int_minus)
  have q: "?x / (1 / 33554432) = 5404319552844595 / 536870912" by simp
  have f: "\<lfloor>5404319552844595 / 536870912 :: real\<rfloor> = 10066329" by simp
  have "round_half_even (5404319552844595 / 536870912) = 10066330"
    unfolding round_half_even_def Let_def f by simp
  then show ?thesis
    using round_binary_eq [of "- 2" ?x "- 126" 24] q by (simp add: u to_float_def)
qed

lemma to_double_product: "to_double (125829125 / 8388608) = (125829125 / 8388608)"
  unfolding to_double_def
proof (rule round_binary_exact [of 3 _ _ 8444249636864000])
  show "2 powi 3 \<le> \<bar>(125829125 / 8388608) :: real\<bar>" by simp
  show "\<bar>(125829125 / 8388608) :: real\<bar> < 2 powi (3 + 1)" by simp
  show "- 1022 \<le> (3 :: int)" by simp
  show "((125829125 / 8388608) :: real) = of_int 8444249636864000 * 2 powi (3 - (53 - 1))" by (simp add: power_int_minus)
qed

lemma to_float_above_15:
  "to_float (125829125 / 8388608) = 15728641 / 1048576"
proof -
  let ?x = "125829125 / 8388608 :: real"
  have u: "(2 :: real) powi (3 - (24 - 1)) = 1 / 1048576" by (simp add: power_int_minus)
  have q: "?x / (1 / 1048576) = 125829125 / 8" by simp
  have f: "\<lfloor>125829125 / 8 :: real\<rfloor> = 15728640" by simp
  have "round_half_even (125829125 / 8) = 15728641"
    unfolding round_half_even_def Let_def f by simp
  then show ?thesis
    using round_binary_eq [of 3 ?x "- 126" 24] q by (simp add: u to_float_def)
qed

section \<open>32-bit products\<close>

lemma to_int32_id:
  assumes "- (2 ^ 31) \<le> x" and "x < 2 ^ 31"
  shows "to_int32 x = x"
proof -
  have "signed_take_bit 31 x = x" using assms by (intro signed_take_bit_int_eq_self) simp_all
  then show ?thesis by (simp add: to_int32_def sint_sbintrunc')
qed

section \<open>Persistence of the position\<close>

text \<open>
  The worker stores the position scaled to \<open>MAX_RESOLUTION\<close>, and \<open>Connect\<close> reads the file
  on that scale.
\<close>

lemma motor_exit_persists:
  assumes "posFile_writable s" and "uint c * MAX_RESOLUTION < 2 ^ 31"
    and "c_div (uint c * MAX_RESOLUTION) (resolution s) \<noteq> - 1"
  shows "posFile (motor_exit c s) = Some (c_div (uint c * MAX_RESOLUTION) (resolution s))"
proof -
  have "0 \<le> uint c * MAX_RESOLUTION" by (simp add: MAX_RESOLUTION_def)
  then have "to_int32 (uint c * MAX_RESOLUTION) = uint c * MAX_RESOLUTION"
    using assms(2) by (intro to_int32_id) simp_all
  then show ?thesis
    using assms(1,3) by (simp add: motor_exit_def Let_def setCurrent_def savePosition_def)
qed

text \<open>
  Claim C4. Every change of the position is to persist the position times
  \<open>MAX_RESOLUTION / resolution\<close>. \<open>SyncFocuser\<close> does not: at full-step resolution, a
  sync to 1000 writes 1000 to the position file where the claim asks for 32000, and the
  next \<open>Connect\<close>, which converts the stored value from \<open>MAX_RESOLUTION\<close>, restores
  position 31.
\<close>

theorem SyncFocuser_persists_unscaled:
  "posFile (snd (SyncFocuser startup_focuser 1000)) = Some 1000 \<and>
   FocusAbsPos_value (snd (SyncFocuser startup_focuser 1000))
     * (MAX_RESOLUTION div resolution (snd (SyncFocuser startup_focuser 1000))) = 32000 \<and>
   FocusAbsPos_value (Connect_load_position (snd (SyncFocuser startup_focuser 1000))) = 31"
  by (simp add: SyncFocuser_def savePosition_def startup_focuser_def MAX_RESOLUTION_def
      Connect_load_position_def c_div_def Let_def to_int32_def)

section \<open>Thermal compensation\<close>

lemma MoveAbsFocuser_temperature:
  "lastTemperature (snd (MoveAbsFocuser s t)) = lastTemperature s"
  "FocusTemperature_value (snd (MoveAbsFocuser s t)) = FocusTemperature_value s"
  "FocusAbsPos_value (snd (MoveAbsFocuser s t)) = FocusAbsPos_value s"
  by (simp_all add: MoveAbsFocuser_def Let_def setCurrent_def)

text \<open>
  Claim C8 takes the compensation to be coefficient times temperature difference. The
  code stores the difference and the product in \<open>float\<close> variables. With 50 steps per
  degree, 30 steps per critical focus zone, the last temperature 0 and the current
  temperature the double nearest to 0.3, the compensation of the claim is below the
  threshold 15, yet the call starts a move to 15 and records the temperature: the rounded
  product is \<open>15728641 / 2^20\<close>, above 15.
\<close>

theorem compensation_threshold_counterexample:
  "\<bar>TemperatureCoef_value boundary_focuser
      * (FocusTemperature_value boundary_focuser - lastTemperature boundary_focuser)\<bar>
     \<le> FocuserInfo_steps_cfz boundary_focuser / 2 \<and>
   motionThread (temperatureCompensation boundary_focuser) = Some (15, 1, 0) \<and>
   lastTemperature (temperatureCompensation boundary_focuser)
     \<noteq> lastTemperature boundary_focuser"
proof -
  have r: "c_round (15728641 / 1048576) = 15" by (simp add: c_round_def)
  show ?thesis
    by (simp add: temperatureCompensation_def boundary_focuser_def startup_focuser_def Let_def
        to_double_0_3 to_float_double_0_3 to_double_product to_float_above_15 r
        to_uint32_def MoveAbsFocuser_def setCurrent_def)
qed

text \<open>
  Claim C8, amended. \<open>temperatureCompensation\<close> changes anything, and so issues a move, only
  when the absolute value of the compensation exceeds half the steps per critical focus
  zone, the compensation being computed as the code does: the temperature difference, a
  double, rounded to \<open>float\<close>; its product with the coefficient, a double, rounded to
  \<open>float\<close>. When compensation is
  disabled, or the temperature equals the last recorded one, or that compensation is at or
  below the threshold, the call returns the state as it was: position, last temperature
  and thread handle included.
\<close>

theorem compensation_only_above_threshold:
  "(temperatureCompensation s \<noteq> s \<longrightarrow>
      FocuserInfo_steps_cfz s / 2
        < \<bar>to_float (to_double (TemperatureCoef_value s
             * to_float (to_double (FocusTemperature_value s - lastTemperature s))))\<bar>) \<and>
   (\<not> TemperatureCompensate_on s \<or> FocusTemperature_value s = lastTemperature s
      \<or> \<bar>to_float (to_double (TemperatureCoef_value s
             * to_float (to_double (FocusTemperature_value s - lastTemperature s))))\<bar>
           \<le> FocuserInfo_steps_cfz s / 2 \<longrightarrow>
      temperatureCompensation s = s \<and>
      FocusAbsPos_value (temperatureCompensation s) = FocusAbsPos_value s \<and>
      lastTemperature (temperatureCompensation s) = lastTemperature s \<and>
      motionThread (temperatureCompensation s) = motionThread s)"
  by (auto simp: temperatureCompensation_def Let_def)

theorem compensation_only_above_threshold_witness:
  "temperatureCompensation (warm_focuser 1) = warm_focuser 1 \<and>
   temperatureCompensation (warm_focuser 2) \<noteq> warm_focuser 2 \<and>
   (30 :: real) / 2 < \<bar>to_float (to_double (10 * to_float (to_double (2 - 0))))\<bar>"
proof -
  have a: "temperatureCompensation (warm_focuser 1) = warm_focuser 1"
    using compensation_only_above_threshold [of "warm_focuser 1"]
    by (simp add: warm_focuser_def startup_focuser_def to_float_1 to_float_10
        to_double_1 to_double_10)
  have "lastTemperature (temperatureCompensation (warm_focuser 2)) = 2"
    by (simp add: temperatureCompensation_def warm_focuser_def startup_focuser_def Let_def
        MoveAbsFocuser_temperature to_float_2 to_float_20 to_double_2 to_double_20)
  then have b: "temperatureCompensation (warm_focuser 2) \<noteq> warm_focuser 2"
    by (auto simp: warm_focuser_def startup_focuser_def)
  show ?thesis
    using a b compensation_only_above_threshold [of "warm_focuser 2"]
    by (simp add: warm_focuser_def startup_focuser_def to_float_2 to_float_20
        to_double_2 to_double_20)
qed

text \<open>
  Claim C9 says that the compensator never writes \<open>lastTemperature\<close>. It does: with the
  last temperature 0 and the current one 2, the call starts a worker towards 20 and has
  already stored 2 as the last temperature, while the position is still 0 and the worker
  has not run.
\<close>

theorem compensator_writes_lastTemperature_counterexample:
  "motionThread (temperatureCompensation (warm_focuser 2)) = Some (20, 1, 0) \<and>
   FocusAbsPos_value (temperatureCompensation (warm_focuser 2)) = 0 \<and>
   lastTemperature (temperatureCompensation (warm_focuser 2))
     \<noteq> lastTemperature (warm_focuser 2)"
  by (simp add: temperatureCompensation_def warm_focuser_def startup_focuser_def Let_def
      to_float_2 to_float_20 to_double_2 to_double_20 c_round_def to_uint32_def
      MoveAbsFocuser_def setCurrent_def)

text \<open>
  Claim C9, amended. When \<open>temperatureCompensation\<close> issues a compensating move (the
  compensation, computed in single precision as the code does, exceeds the threshold) it
  writes \<open>lastTemperature\<close> itself, right after the call of \<open>MoveAbsFocuser\<close> and before
  any worker has moved the position: the last temperature becomes the current
  temperature. A worker that exits records the current temperature as well.
\<close>

theorem compensator_writes_lastTemperature:
  assumes "isConnected s" and "TemperatureCompensate_on s"
    and "FocuserInfo_steps_cfz s / 2
        < \<bar>to_float (to_double (TemperatureCoef_value s
             * to_float (to_double (FocusTemperature_value s - lastTemperature s))))\<bar>"
    and "0 \<le> FocuserInfo_steps_cfz s"
  shows "lastTemperature (temperatureCompensation s) = FocusTemperature_value s \<and>
         FocusAbsPos_value (temperatureCompensation s) = FocusAbsPos_value s \<and>
         lastTemperature (motor_exit c s') = FocusTemperature_value s'"
proof -
  have "FocusTemperature_value s \<noteq> lastTemperature s"
    using assms(3,4) by (auto simp: to_float_0 to_double_0)
  then show ?thesis
    using assms(1-3)
    by (simp add: temperatureCompensation_def Let_def MoveAbsFocuser_temperature motor_exit_fields)
qed

theorem compensator_writes_lastTemperature_witness:
  "lastTemperature (temperatureCompensation (warm_focuser 2)) = 2 \<and>
   FocusAbsPos_value (temperatureCompensation (warm_focuser 2)) = 0"
  using compensator_writes_lastTemperature [of "warm_focuser 2"]
  by (simp add: warm_focuser_def startup_focuser_def to_float_2 to_float_20
      to_double_2 to_double_20)

section \<open>Changing the resolution\<close>

lemma c_div_nonneg: "0 \<le> a \<Longrightarrow> 0 < b \<Longrightarrow> c_div a b = a div b"
  by (simp add: c_div_def)

lemma c_trunc_of_int: "c_trunc (of_int x) = x"
  by (simp add: c_trunc_def)

text \<open>
  For a position that is not negative, the first value of \<open>position_adjustment\<close> is the
  remainder of the position modulo the old resolution.
\<close>

lemma position_adjustment_mod:
  assumes "0 \<le> p" and "0 < l"
  shows "position_adjustment l p = p mod l"
proof -
  have l0: "(of_int l :: real) \<noteq> 0" using assms(2) by simp
  have "(of_int l :: real) * (of_int p / of_int l - of_int (p div l))
          = of_int p - of_int l * of_int (p div l)"
    using l0 by (simp add: right_diff_distrib)
  also have "\<dots> = of_int (p - l * (p div l))" by simp
  also have "p - l * (p div l) = p mod l" by (simp add: minus_mult_div_eq_mod)
  finally show ?thesis
    using assms by (simp add: position_adjustment_def c_div_nonneg c_trunc_of_int)
qed

lemma corrective_move_eq:
  assumes "0 < l"
  shows "corrective_move l a = (if 2 * a < l then - a else l - a)"
proof -
  have "((of_int a :: real) / of_int l < 0.5) = (2 * a < l)"
  proof -
    have "((of_int a :: real) / of_int l < 1 / 2) = ((of_int a :: real) * 2 < of_int l)"
      using assms by (simp add: field_simps)
    also have "\<dots> = (2 * a < l)"
      by (metis mult.commute of_int_less_iff of_int_mult of_int_numeral)
    finally show ?thesis by simp
  qed
  then show ?thesis by (simp add: corrective_move_def)
qed

lemma MoveAbsFocuser_bounds:
  "FocusAbsPos_max (snd (MoveAbsFocuser s t)) = FocusAbsPos_max s"
  "FocusAbsPos_step (snd (MoveAbsFocuser s t)) = FocusAbsPos_step s"
  "FocusAbsPos_value (snd (MoveAbsFocuser s t)) = FocusAbsPos_value s"
  "FocusRelPos_min (snd (MoveAbsFocuser s t)) = FocusRelPos_min s"
  "FocusRelPos_max (snd (MoveAbsFocuser s t)) = FocusRelPos_max s"
  "FocusRelPos_step (snd (MoveAbsFocuser s t)) = FocusRelPos_step s"
  "FocusRelPos_value (snd (MoveAbsFocuser s t)) = FocusRelPos_value s"
  "FocusMaxPos_min (snd (MoveAbsFocuser s t)) = FocusMaxPos_min s"
  "FocusMaxPos_max (snd (MoveAbsFocuser s t)) = FocusMaxPos_max s"
  "FocusMaxPos_step (snd (MoveAbsFocuser s t)) = FocusMaxPos_step s"
  "FocusMaxPos_value (snd (MoveAbsFocuser s t)) = FocusMaxPos_value s"
  "resolution (snd (MoveAbsFocuser s t)) = resolution s"
  "pulse_log (snd (MoveAbsFocuser s t)) = pulse_log s"
  "filter is_step_write (hw (snd (MoveAbsFocuser s t))) = filter is_step_write (hw s)"
  by (simp_all add: MoveAbsFocuser_def Let_def setCurrent_def)

lemma resolution_handler_fields:
  "resolution (ISNewSwitch_FocusResolution s sw) = resolution_of sw"
  "FocusAbsPos_value (ISNewSwitch_FocusResolution s sw)
     = c_div (to_int32 (FocusAbsPos_value s * resolution_of sw)) (resolution s)"
  "FocusAbsPos_max (ISNewSwitch_FocusResolution s sw)
     = c_div (to_int32 (FocusAbsPos_max s * resolution_of sw)) (resolution s)"
  "FocusAbsPos_step (ISNewSwitch_FocusResolution s sw)
     = c_div (to_int32 (FocusAbsPos_step s * resolution_of sw)) (resolution s)"
  "FocusMaxPos_min (ISNewSwitch_FocusResolution s sw)
     = c_div (to_int32 (FocusMaxPos_min s * resolution_of sw)) (resolution s)"
  "FocusMaxPos_max (ISNewSwitch_FocusResolution s sw)
     = c_div (to_int32 (FocusMaxPos_max s * resolution_of sw)) (resolution s)"
  "FocusMaxPos_step (ISNewSwitch_FocusResolution s sw)
     = c_div (to_int32 (FocusMaxPos_step s * resolution_of sw)) (resolution s)"
  "FocusMaxPos_value (ISNewSwitch_FocusResolution s sw)
     = c_div (to_int32 (FocusMaxPos_value s * resolution_of sw)) (resolution s)"
  "FocusRelPos_min (ISNewSwitch_FocusResolution s sw)
     = c_div (to_int32 (FocusRelPos_min s * resolution_of sw)) (resolution s)"
  "FocusRelPos_max (ISNewSwitch_FocusResolution s sw)
     = c_div (to_int32 (FocusRelPos_max s * resolution_of sw)) (resolution s)"
  "FocusRelPos_step (ISNewSwitch_FocusResolution s sw)
     = c_div (to_int32 (FocusRelPos_step s * resolution_of sw)) (resolution s)"
  "FocusRelPos_value (ISNewSwitch_FocusResolution s sw)
     = c_div (to_int32 (FocusRelPos_value s * resolution_of sw)) (resolution s)"
  "pulse_log (ISNewSwitch_FocusResolution s sw) = pulse_log s"
  "filter is_step_write (hw (ISNewSwitch_FocusResolution s sw)) = filter is_step_write (hw s)"
  by (simp_all add: ISNewSwitch_FocusResolution_def Let_def getFocuserInfo_def
      SetResolution_def MoveAbsFocuser_bounds)

lemma resolution_handler_thread:
  assumes "resolution_of sw < resolution s"
    and "0 < position_adjustment (resolution s) (FocusAbsPos_value s)"
  shows "motionThread (ISNewSwitch_FocusResolution s sw)
     = motionThread (snd (MoveAbsFocuser (s\<lparr>resolution := resolution_of sw\<rparr>)
         (to_uint32 (FocusAbsPos_value s
            + corrective_move (resolution s)
                (position_adjustment (resolution s) (FocusAbsPos_value s))))))"
  using assms
  by (simp add: ISNewSwitch_FocusResolution_def Let_def getFocuserInfo_def SetResolution_def)

lemma rescale_within_grid:
  assumes "0 \<le> p" and "0 < old" and "0 < new"
  shows "\<bar>real_of_int p / real_of_int old
           - real_of_int ((p * new) div old) / real_of_int new\<bar> < 1 / real_of_int new"
proof -
  define q where "q = (p * new) div old"
  define m where "m = (p * new) mod old"
  have e: "p * new = old * q + m" by (simp add: q_def m_def)
  have m0: "0 \<le> m" and m1: "m < old" using assms(2) by (simp_all add: m_def)
  have "real_of_int p * real_of_int new = real_of_int old * real_of_int q + real_of_int m"
    using e by (metis of_int_add of_int_mult)
  then have "real_of_int p / real_of_int old - real_of_int q / real_of_int new
      = real_of_int m / (real_of_int old * real_of_int new)"
    using assms(2,3) by (simp add: field_simps)
  moreover have "0 \<le> real_of_int m / (real_of_int old * real_of_int new)"
    using m0 assms(2,3) by simp
  moreover have "real_of_int m / (real_of_int old * real_of_int new) < 1 / real_of_int new"
    using m1 assms(2,3) by (simp add: field_simps)
  ultimately show ?thesis by (simp add: q_def)
qed

lemma resolutions_divide:
  assumes "old \<in> {1, 2, 4, 8, 16, 32 :: int}" and "old \<le> resolution_of sw"
  shows "old dvd resolution_of sw"
  using assms by (cases sw) auto

text \<open>
  What the handler itself computes, up to its return. For an old resolution among 1, 2, 4,
  8, 16, 32, any new one, and a position that is not negative and whose product with the
  new resolution fits an \<open>int\<close>: the position becomes the old value times new over old
  (integer division), and so do the bounds, each product reduced to 32 bits. Position over
  old resolution and new position over new resolution differ by less than one unit of the
  new grid. The remainder is the position modulo the old resolution. When the old position
  is not on a grid point of the new resolution, the new resolution is the lower one and
  the remainder is positive; and whenever that holds, the handler requests a move by minus
  the remainder if remainder over old resolution is below 0.5 and by old resolution minus
  remainder otherwise: at most half the old resolution, to a multiple of the old
  resolution, a target expressed on the old scale.
\<close>

lemma resolution_handler_computes:
  assumes "resolution s \<in> {1, 2, 4, 8, 16, 32}" and "0 \<le> FocusAbsPos_value s"
    and "FocusAbsPos_value s * resolution_of sw < 2 ^ 31"
  shows "let old = resolution s; new = resolution_of sw; P = FocusAbsPos_value s;
             s' = ISNewSwitch_FocusResolution s sw;
             r = position_adjustment old P; d = corrective_move old r
         in resolution s' = new \<and>
            FocusAbsPos_value s' = c_div (P * new) old \<and>
            FocusAbsPos_max s' = c_div (to_int32 (FocusAbsPos_max s * new)) old \<and>
            FocusMaxPos_value s' = c_div (to_int32 (FocusMaxPos_value s * new)) old \<and>
            FocusRelPos_max s' = c_div (to_int32 (FocusRelPos_max s * new)) old \<and>
            \<bar>real_of_int P / real_of_int old
               - real_of_int (FocusAbsPos_value s') / real_of_int new\<bar> < 1 / real_of_int new \<and>
            r = P mod old \<and>
            (\<not> old dvd P * new \<longrightarrow> new < old \<and> 0 < r) \<and>
            (new < old \<and> 0 < r \<longrightarrow>
               d = (if real_of_int r / real_of_int old < 1 / 2 then - r else old - r) \<and>
               2 * \<bar>d\<bar> \<le> old \<and> old dvd P + d \<and>
               motionThread s' = motionThread (snd (MoveAbsFocuser (s\<lparr>resolution := new\<rparr>)
                                    (to_uint32 (P + d)))))"
proof -
  define old where "old = resolution s"
  define new where "new = resolution_of sw"
  define P where "P = FocusAbsPos_value s"
  define r where "r = position_adjustment old P"
  define d where "d = corrective_move old r"
  have old0: "0 < old" using assms(1) by (auto simp: old_def)
  have new0: "0 < new" by (cases sw) (simp_all add: new_def)
  have P0: "0 \<le> P" using assms(2) by (simp add: P_def)
  have r: "r = P mod old" using P0 old0 by (simp add: r_def position_adjustment_mod)
  have "0 \<le> P * new" using P0 new0 by simp
  then have w: "to_int32 (P * new) = P * new"
    using assms(3) by (intro to_int32_id) (simp_all add: P_def new_def)
  have v: "c_div (P * new) old = (P * new) div old"
    using P0 new0 old0 by (simp add: c_div_nonneg)
  have g: "\<bar>real_of_int P / real_of_int old
             - real_of_int (c_div (P * new) old) / real_of_int new\<bar> < 1 / real_of_int new"
    using rescale_within_grid [OF P0 old0 new0] v by simp
  have dd: "d = (if 2 * r < old then - r else old - r)"
    using old0 by (simp add: d_def corrective_move_eq)
  have dr: "d = (if real_of_int r / real_of_int old < 1 / 2 then - r else old - r)"
    using old0 by (simp add: d_def corrective_move_def)
  have rb: "0 \<le> r" "r < old" using old0 r by simp_all
  have b: "2 * \<bar>d\<bar> \<le> old" using dd rb by (auto split: if_splits)
  have dv: "old dvd P + d"
  proof -
    have "P - r = old * (P div old)" using r by (simp add: minus_mod_eq_mult_div)
    then have "old dvd P - r" by simp
    then have "old dvd P - r + old" by simp
    then show ?thesis using dd \<open>old dvd P - r\<close> by (auto simp: algebra_simps)
  qed
  have off: "new < old \<and> 0 < r" if n: "\<not> old dvd P * new"
  proof -
    have "\<not> old \<le> new"
    proof
      assume "old \<le> new"
      then have "old dvd new"
        using resolutions_divide [of old sw] assms(1) by (simp add: old_def new_def)
      then show False using n by simp
    qed
    moreover have "r \<noteq> 0"
    proof
      assume "r = 0"
      then have "old dvd P" using r by (simp add: dvd_eq_mod_eq_0)
      then show False using n by simp
    qed
    ultimately show ?thesis using rb by simp
  qed
  have th: "motionThread (ISNewSwitch_FocusResolution s sw)
      = motionThread (snd (MoveAbsFocuser (s\<lparr>resolution := new\<rparr>) (to_uint32 (P + d))))"
    if "new < old \<and> 0 < r"
    using that resolution_handler_thread [of sw s]
    by (simp add: old_def new_def P_def r_def d_def)
  show ?thesis
    unfolding Let_def
    using g r dr b dv off th w
    by (simp add: resolution_handler_fields old_def new_def P_def r_def d_def)
qed

lemma resolution_handler_example:
  "resolution (ISNewSwitch_FocusResolution fine_focuser RES_16) = 16 \<and>
   FocusAbsPos_value (ISNewSwitch_FocusResolution fine_focuser RES_16) = 500 \<and>
   FocusAbsPos_max (ISNewSwitch_FocusResolution fine_focuser RES_16) = 160000 \<and>
   position_adjustment 32 1001 = 9 \<and> corrective_move 32 9 = - 9 \<and>
   motionThread (ISNewSwitch_FocusResolution fine_focuser RES_16) = Some (992, - 1, 0)"
proof -
  have h: "resolution fine_focuser \<in> {1, 2, 4, 8, 16, 32}" "0 \<le> FocusAbsPos_value fine_focuser"
    "FocusAbsPos_value fine_focuser * resolution_of RES_16 < 2 ^ 31"
    by (simp_all add: fine_focuser_def startup_focuser_def)
  have f: "resolution fine_focuser = 32" "FocusAbsPos_value fine_focuser = 1001"
    "FocusAbsPos_max fine_focuser = 320000"
    by (simp_all add: fine_focuser_def startup_focuser_def)
  have n: "\<not> (32 :: int) dvd 1001 * 16" by simp
  have m: "motionThread (snd (MoveAbsFocuser (fine_focuser\<lparr>resolution := 16\<rparr>) 992))
      = Some (992, - 1, 0)"
    by (simp add: MoveAbsFocuser_def Let_def setCurrent_def fine_focuser_def startup_focuser_def)
  have c: "c_div (1001 * 16) 32 = 500" "c_div (to_int32 (320000 * 16)) 32 = 160000"
    by (simp_all add: c_div_def to_int32_def)
  have pa: "position_adjustment 32 1001 = 9"
    by (simp add: position_adjustment_mod)
  have cm: "corrective_move 32 9 = - 9"
    by (simp add: corrective_move_eq)
  note t = resolution_handler_computes [OF h, unfolded Let_def f, simplified]
  show ?thesis using t f n m c pa cm by (simp add: to_uint32_def)
qed

lemma length_concat_pairs: "length (concat (replicate n [a, b])) = 2 * n"
  by (induction n) auto

text \<open>
  Claim C5. The change of resolution is to leave position over resolution the same within
  one grid unit, with a corrective move of at most half the old resolution. The code
  requests the corrective move with a target on the old scale and, without waiting for the
  worker, rescales the position. At 1/32 step and position 1001, a change to 1/16 step
  sets the position to 500 and starts a worker towards 992 in the inward direction. That
  worker starts from 500 and steps away from its target: it reaches 992 only by running
  through the whole 32-bit range, 4294966804 pulses of the step line, and it then publishes
  992 at 1/16 step, 62 full steps where the focuser stood at 31.28.
\<close>

theorem resolution_change_worker_breaks_scale:
  "FocusAbsPos_value (ISNewSwitch_FocusResolution fine_focuser RES_16) = 500 \<and>
   resolution (ISNewSwitch_FocusResolution fine_focuser RES_16) = 16 \<and>
   motionThread (ISNewSwitch_FocusResolution fine_focuser RES_16) = Some (992, - 1, 0) \<and>
   map_option FocusAbsPos_value
     (motor_thread (ISNewSwitch_FocusResolution fine_focuser RES_16) (\<lambda>k. False)) = Some 992 \<and>
   map_option resolution
     (motor_thread (ISNewSwitch_FocusResolution fine_focuser RES_16) (\<lambda>k. False)) = Some 16 \<and>
   map_option (\<lambda>s. length (pulse_log s))
     (motor_thread (ISNewSwitch_FocusResolution fine_focuser RES_16) (\<lambda>k. False))
       = Some 4294966804 \<and>
   map_option (\<lambda>s. length (filter is_step_write (hw s)))
     (motor_thread (ISNewSwitch_FocusResolution fine_focuser RES_16) (\<lambda>k. False))
       = Some (2 * 4294966804) \<and>
   \<not> \<bar>(1001 :: real) / 32 - 992 / 16\<bar> < 1 / 16"
proof -
  define h where "h = ISNewSwitch_FocusResolution fine_focuser RES_16"
  define n where "n = unat ((992 - 500) * (- 1) :: 32 word)"
  have hv: "FocusAbsPos_value h = 500" and hr: "resolution h = 16"
    and ht: "motionThread h = Some (992, - 1, 0)"
    using resolution_handler_example by (simp_all add: h_def)
  have hp: "pulse_log h = []" and hh: "filter is_step_write (hw h) = []"
    by (simp_all add: h_def resolution_handler_fields fine_focuser_def startup_focuser_def)
  have nv: "n = 4294966804" by (simp add: n_def)
  have dd: "(- 1 :: 32 word) * (- 1) = 1" by simp
  have wd: "(word_of_int (- 1) :: 32 word) = - 1" by simp
  have ne: "(500 :: 32 word) \<noteq> 992" by simp
  have na: "\<forall>k :: nat. \<not> False" by simp
  from worker_run [OF dd wd ne na, where k = 0 and b = 0 and s = h]
  obtain s1 where
    run: "motor_loop 992 (- 1) (\<lambda>k. False) 0 500 0 h = Some (992, min 0 0, s1)"
    and l1: "pulse_log s1 = pulse_log h @ replicate (nat 0) 500
             @ map (\<lambda>i. 500 + of_nat i * (- 1)) [1..<Suc n]"
    and h1: "filter is_step_write (hw s1)
      = filter is_step_write (hw h)
        @ concat (replicate (nat 0 + n) [GpioWrite STP_PIN True, GpioWrite STP_PIN False])"
    and r1: "resolution s1 = resolution h"
    unfolding n_def by blast
  have mt: "motor_thread h (\<lambda>k. False) = Some (motor_exit 992 s1)"
    using ht hv run by (simp add: motor_thread_def to_uint32_def)
  have len: "length (pulse_log s1) = n"
    using l1 hp by (simp del: upt_Suc)
  have stp: "length (filter is_step_write (hw s1)) = 2 * n"
    using h1 hh by (simp add: length_concat_pairs)
  have a: "map_option FocusAbsPos_value (motor_thread h (\<lambda>k. False)) = Some 992"
    using mt by (simp add: motor_exit_fields)
  have b: "map_option resolution (motor_thread h (\<lambda>k. False)) = Some 16"
    using mt r1 hr by (simp add: motor_exit_fields)
  have c: "map_option (\<lambda>s. length (pulse_log s)) (motor_thread h (\<lambda>k. False))
      = Some 4294966804"
    using mt len nv by (simp add: motor_exit_fields)
  have d: "map_option (\<lambda>s. length (filter is_step_write (hw s))) (motor_thread h (\<lambda>k. False))
      = Some (2 * 4294966804)"
    using mt stp nv by (simp add: motor_exit_fields)
  have e: "\<not> \<bar>(1001 :: real) / 32 - 992 / 16\<bar> < 1 / 16" by simp
  show ?thesis using hv hr ht a b c d e unfolding h_def by blast
qed

section \<open>The light sensor\<close>

lemma readTSL_run_append:
  "readTSL_run (xs @ ys) s = readTSL_run ys (readTSL_run xs s)"
  by (induction xs arbitrary: s) auto

lemma readTSL_only_finalizes_when_due:
  assumes "niter (snd (readTSL io s)) < niter s
           \<or> SQM_READING (snd (readTSL io s)) \<noteq> SQM_READING s"
  shows "5 \<le> niter s \<and> (500 \<le> fullCumulative s - irCumulative s \<or> 150 \<le> niter s)"
  using assms
  by (auto simp: readTSL_def Let_def split: if_splits TSL_mode.splits)

lemma readTSL_finalizes:
  assumes "0 \<le> tsl_i2cHandle io" and "TSLmode s = TSL_INITIALIZED"
    and "adcStartTime s \<noteq> 0" and "adcStartTime s + TSL2591_ADC_TIME < tsl_millis io"
    and "tsl_ir io \<le> tsl_full io" and "5 \<le> niter s"
    and "500 \<le> fullCumulative s - irCumulative s \<or> 150 \<le> niter s"
  shows "SQM_READING (snd (readTSL io s))
           = 12.6 - 1.086 * ln (of_int (fullCumulative s - irCumulative s)
                                  / (29628 * of_int (niter s)))
             + SQMOffset_value s + FILTER_COEFF \<and>
         niter (snd (readTSL io s)) = 0 \<and>
         fullCumulative (snd (readTSL io s)) = 0 \<and>
         irCumulative (snd (readTSL io s)) = 0"
  using assms by (auto simp: readTSL_def Let_def)

lemma tsl_cycle_accumulates:
  assumes "TSLmode s = TSL_INITIALIZED" and "adcStartTime s = 0" and "niter s < 5"
    and "snd x \<le> fst x"
  shows "readTSL_run (tsl_cycle x) s
     = s\<lparr>niter := niter s + 1, fullCumulative := fullCumulative s + fst x,
         irCumulative := irCumulative s + snd x\<rparr>"
  using assms
  by (cases s) (simp add: tsl_cycle_def readTSL_def Let_def TSL2591_ADC_TIME_def)

lemma tsl_cycles_accumulate:
  assumes "TSLmode s = TSL_INITIALIZED" and "adcStartTime s = 0"
    and "0 \<le> niter s" and "niter s + int (length xs) \<le> 5"
    and "\<forall>x \<in> set xs. snd x \<le> fst x"
  shows "readTSL_run (concat (map tsl_cycle xs)) s
     = s\<lparr>niter := niter s + int (length xs),
         fullCumulative := fullCumulative s + sum_list (map fst xs),
         irCumulative := irCumulative s + sum_list (map snd xs)\<rparr>"
  using assms
proof (induction xs arbitrary: s)
  case Nil
  then show ?case by simp
next
  case (Cons x xs)
  let ?s1 = "s\<lparr>niter := niter s + 1, fullCumulative := fullCumulative s + fst x,
         irCumulative := irCumulative s + snd x\<rparr>"
  have c: "readTSL_run (tsl_cycle x) s = ?s1"
    using Cons.prems by (intro tsl_cycle_accumulates) auto
  have "readTSL_run (concat (map tsl_cycle xs)) ?s1
     = ?s1\<lparr>niter := niter ?s1 + int (length xs),
         fullCumulative := fullCumulative ?s1 + sum_list (map fst xs),
         irCumulative := irCumulative ?s1 + sum_list (map snd xs)\<rparr>"
    using Cons.prems by (intro Cons.IH) auto
  then show ?case using c by (simp add: readTSL_run_append add.assoc)
qed

lemma tsl_cycle_finalizes:
  assumes "TSLmode s = TSL_INITIALIZED" and "adcStartTime s = 0" and "5 \<le> niter s"
    and "500 \<le> fullCumulative s - irCumulative s \<or> 150 \<le> niter s"
    and "snd x \<le> fst x"
  shows "SQM_READING (readTSL_run (tsl_cycle x) s)
           = 12.6 - 1.086 * ln (of_int (fullCumulative s - irCumulative s)
                                  / (29628 * of_int (niter s)))
             + SQMOffset_value s + FILTER_COEFF"
  using assms
  by (auto simp: tsl_cycle_def readTSL_def Let_def TSL2591_ADC_TIME_def)

text \<open>
  Claim C6, amended. A call of \<open>readTSL\<close> lowers the cycle counter or changes the published
  brightness only if at least 5 cycles have accumulated and the visible sum (full sum minus
  infrared sum) is at least 500 or 150 cycles have accumulated. When that holds at a read
  that is due, with a sample whose full count is not below its infrared count, the
  published brightness is \<open>12.6 - 1.086 ln (visible / (29628 n)) + offset + FILTER_COEFF\<close>,
  \<open>n\<close> the number of accumulated cycles, and counter and sums are reset to 0. In
  particular, five cycles of samples with a visible sum of at least 500, from empty sums,
  give that formula with \<open>n = 5\<close> at the next cycle. (The logarithm is that of the reals;
  the formula says something where the visible sum is positive.)
\<close>

theorem light_sensor_finalization:
  "(niter (snd (readTSL io s)) < niter s
       \<or> SQM_READING (snd (readTSL io s)) \<noteq> SQM_READING s \<longrightarrow>
      5 \<le> niter s \<and> (500 \<le> fullCumulative s - irCumulative s \<or> 150 \<le> niter s)) \<and>
   (0 \<le> tsl_i2cHandle io \<and> TSLmode s = TSL_INITIALIZED \<and> adcStartTime s \<noteq> 0
       \<and> adcStartTime s + TSL2591_ADC_TIME < tsl_millis io \<and> tsl_ir io \<le> tsl_full io
       \<and> 5 \<le> niter s \<and> (500 \<le> fullCumulative s - irCumulative s \<or> 150 \<le> niter s) \<longrightarrow>
      SQM_READING (snd (readTSL io s))
        = 12.6 - 1.086 * ln (of_int (fullCumulative s - irCumulative s)
                               / (29628 * of_int (niter s)))
          + SQMOffset_value s + FILTER_COEFF \<and>
      niter (snd (readTSL io s)) = 0 \<and> fullCumulative (snd (readTSL io s)) = 0 \<and>
      irCumulative (snd (readTSL io s)) = 0) \<and>
   (TSLmode s0 = TSL_INITIALIZED \<and> adcStartTime s0 = 0 \<and> niter s0 = 0
       \<and> fullCumulative s0 = 0 \<and> irCumulative s0 = 0
       \<and> length samples = 5 \<and> (\<forall>x \<in> set samples. snd x \<le> fst x)
       \<and> 500 \<le> sum_list (map fst samples) - sum_list (map snd samples)
       \<and> snd extra \<le> fst extra \<longrightarrow>
      SQM_READING (readTSL_run (concat (map tsl_cycle samples) @ tsl_cycle extra) s0)
        = 12.6 - 1.086 * ln (of_int (sum_list (map fst samples) - sum_list (map snd samples))
                               / (29628 * 5))
          + SQMOffset_value s0 + FILTER_COEFF)"
proof (intro conjI impI)
  assume "niter (snd (readTSL io s)) < niter s
       \<or> SQM_READING (snd (readTSL io s)) \<noteq> SQM_READING s"
  then show "5 \<le> niter s" "500 \<le> fullCumulative s - irCumulative s \<or> 150 \<le> niter s"
    using readTSL_only_finalizes_when_due by blast+
next
  assume a: "0 \<le> tsl_i2cHandle io \<and> TSLmode s = TSL_INITIALIZED \<and> adcStartTime s \<noteq> 0
       \<and> adcStartTime s + TSL2591_ADC_TIME < tsl_millis io \<and> tsl_ir io \<le> tsl_full io
       \<and> 5 \<le> niter s \<and> (500 \<le> fullCumulative s - irCumulative s \<or> 150 \<le> niter s)"
  then have f: "SQM_READING (snd (readTSL io s))
           = 12.6 - 1.086 * ln (of_int (fullCumulative s - irCumulative s)
                                  / (29628 * of_int (niter s)))
             + SQMOffset_value s + FILTER_COEFF \<and>
         niter (snd (readTSL io s)) = 0 \<and>
         fullCumulative (snd (readTSL io s)) = 0 \<and>
         irCumulative (snd (readTSL io s)) = 0"
    by (intro readTSL_finalizes) auto
  from f show "SQM_READING (snd (readTSL io s))
        = 12.6 - 1.086 * ln (of_int (fullCumulative s - irCumulative s)
                               / (29628 * of_int (niter s)))
          + SQMOffset_value s + FILTER_COEFF" by simp
  from f show "niter (snd (readTSL io s)) = 0" by simp
  from f show "fullCumulative (snd (readTSL io s)) = 0" by simp
  from f show "irCumulative (snd (readTSL io s)) = 0" by simp
next
  assume a: "TSLmode s0 = TSL_INITIALIZED \<and> adcStartTime s0 = 0 \<and> niter s0 = 0
       \<and> fullCumulative s0 = 0 \<and> irCumulative s0 = 0
       \<and> length samples = 5 \<and> (\<forall>x \<in> set samples. snd x \<le> fst x)
       \<and> 500 \<le> sum_list (map fst samples) - sum_list (map snd samples)
       \<and> snd extra \<le> fst extra"
  let ?s5 = "s0\<lparr>niter := niter s0 + int (length samples),
         fullCumulative := fullCumulative s0 + sum_list (map fst samples),
         irCumulative := irCumulative s0 + sum_list (map snd samples)\<rparr>"
  have acc: "readTSL_run (concat (map tsl_cycle samples)) s0 = ?s5"
    using a by (intro tsl_cycles_accumulate) auto
  have "SQM_READING (readTSL_run (tsl_cycle extra) ?s5)
           = 12.6 - 1.086 * ln (of_int (fullCumulative ?s5 - irCumulative ?s5)
                                  / (29628 * of_int (niter ?s5)))
             + SQMOffset_value ?s5 + FILTER_COEFF"
    using a by (intro tsl_cycle_finalizes) auto
  then show "SQM_READING (readTSL_run (concat (map tsl_cycle samples) @ tsl_cycle extra) s0)
        = 12.6 - 1.086 * ln (of_int (sum_list (map fst samples) - sum_list (map snd samples))
                               / (29628 * 5))
          + SQMOffset_value s0 + FILTER_COEFF"
    using a acc by (simp add: readTSL_run_append)
qed

theorem light_sensor_finalization_witness:
  "SQM_READING (readTSL_run
      (concat (map tsl_cycle [(100, 0), (150, 50), (200, 100), (100, 0), (120, 20)])
         @ tsl_cycle (7, 3)) tsl_ready)
     = 12.6 - 1.086 * ln (500 / (29628 * 5)) + 0 + FILTER_COEFF"
  using light_sensor_finalization
    [of _ _ tsl_ready "[(100, 0), (150, 50), (200, 100), (100, 0), (120, 20)]" "(7, 3)"]
  by (simp add: tsl_ready_def)

text \<open>
  Claim C6 as stated asks the visible sum to exceed 500. With 5 cycles and a visible sum of
  exactly 500 the reading is finalized all the same: counter and sums are reset.
\<close>

theorem light_sensor_threshold_counterexample:
  "niter (snd (readTSL
      \<lparr>tsl_i2cHandle = 0, tsl_write = (\<lambda>k. 0), tsl_millis = 752, tsl_ir = 3, tsl_full = 7\<rparr>
      \<lparr>TSLmode = TSL_INITIALIZED, adcStartTime = 1, niter = 5, fullCumulative = 1000,
        irCumulative = 500, SQMOffset_value = 0, SQM_READING = 0\<rparr>)) = 0 \<and>
   fullCumulative (snd (readTSL
      \<lparr>tsl_i2cHandle = 0, tsl_write = (\<lambda>k. 0), tsl_millis = 752, tsl_ir = 3, tsl_full = 7\<rparr>
      \<lparr>TSLmode = TSL_INITIALIZED, adcStartTime = 1, niter = 5, fullCumulative = 1000,
        irCumulative = 500, SQMOffset_value = 0, SQM_READING = 0\<rparr>)) = 0 \<and>
   \<not> (500 :: int) < 1000 - 500 \<and> \<not> (150 :: int) \<le> 5"
  by (simp add: readTSL_def Let_def TSL2591_ADC_TIME_def)

section \<open>The power sensor\<close>

lemma readPower_index:
  assumes "4 \<le> pw_revision s" and "0 \<le> pw_i2cHandle io"
  shows "fst (readPower io s) \<and>
         powerIndex (snd (readPower io s)) = (if 5 < powerIndex s + 1 then 0 else powerIndex s + 1)"
  using assms by (simp add: readPower_def Let_def)

lemma readPower_trigger:
  assumes "4 \<le> pw_revision s" and "0 \<le> pw_i2cHandle io" and "powerIndex s mod 2 = 0"
  shows "pw_i2c (snd (readPower io s)) = pw_i2c s @ [trigger_command (powerIndex s)] \<and>
         PowerReadings_VIN (snd (readPower io s)) = PowerReadings_VIN s \<and>
         PowerReadings_VREG (snd (readPower io s)) = PowerReadings_VREG s \<and>
         PowerReadings_ITOT (snd (readPower io s)) = PowerReadings_ITOT s \<and>
         energyAs (snd (readPower io s)) = energyAs s \<and>
         energyWs (snd (readPower io s)) = energyWs s"
  using assms by (simp add: readPower_def Let_def)

lemma readPower_read:
  assumes "4 \<le> pw_revision s" and "0 \<le> pw_i2cHandle io" and "powerIndex s mod 2 \<noteq> 0"
    and "pw_written io = 0" and "0 < pw_read io"
  shows "(powerIndex s = 1 \<longrightarrow> PowerReadings_VIN (snd (readPower io s))
            = real_of_int (power_val (pw_readBuf0 io) (pw_readBuf1 io)) / 32768 * 4.096 * 6.6) \<and>
         (powerIndex s = 3 \<longrightarrow> PowerReadings_VREG (snd (readPower io s))
            = real_of_int (power_val (pw_readBuf0 io) (pw_readBuf1 io)) / 32768 * 4.096 * 6.6) \<and>
         (powerIndex s = 5 \<longrightarrow> PowerReadings_ITOT (snd (readPower io s))
            = real_of_int (power_val (pw_readBuf0 io) (pw_readBuf1 io)) / 32768 * 4.096 * 20) \<and>
         (powerIndex s \<noteq> 1 \<longrightarrow> PowerReadings_VIN (snd (readPower io s)) = PowerReadings_VIN s) \<and>
         (powerIndex s \<noteq> 5 \<longrightarrow> PowerReadings_ITOT (snd (readPower io s)) = PowerReadings_ITOT s) \<and>
         energyAs (snd (readPower io s))
           = energyAs s + PowerReadings_ITOT (snd (readPower io s)) * 0.4 \<and>
         energyWs (snd (readPower io s))
           = energyWs s + PowerReadings_VIN (snd (readPower io s))
                          * PowerReadings_ITOT (snd (readPower io s)) * 0.4 \<and>
         PowerReadings_AH (snd (readPower io s)) = energyAs (snd (readPower io s)) / 3600 \<and>
         PowerReadings_WH (snd (readPower io s)) = energyWs (snd (readPower io s)) / 3600"
  using assms by (simp add: readPower_def Let_def)

lemma readPower_read_failed:
  assumes "4 \<le> pw_revision s" and "0 \<le> pw_i2cHandle io" and "powerIndex s mod 2 \<noteq> 0"
    and "\<not> (pw_written io = 0 \<and> 0 < pw_read io)"
  shows "energyAs (snd (readPower io s)) = energyAs s \<and>
         energyWs (snd (readPower io s)) = energyWs s \<and>
         PowerReadings_s (snd (readPower io s)) = IPS_ALERT"
  using assms by (auto simp: readPower_def Let_def)

lemma power_config_values:
  "power_config 0 = 0xC3" "power_config 2 = 0xD3" "power_config 4 = 0xB3"
  by (simp_all add: power_config_def)

lemma power_val_example: "power_val 0x10 0 = 4080"
  by (simp add: power_val_def)

text \<open>
  Claim C7 says that the energy accumulators are integrated only on the read of the Itot
  channel. At index 1, the read of Vin, with a current of 1 A from an earlier cycle, the
  amp-second accumulator goes from 0 to 0.4.
\<close>

theorem power_energy_counterexample:
  "powerIndex (power_ready\<lparr>powerIndex := 1, PowerReadings_ITOT := 1\<rparr>) = 1 \<and>
   energyAs (power_ready\<lparr>powerIndex := 1, PowerReadings_ITOT := 1\<rparr>) = 0 \<and>
   energyAs (snd (readPower
      \<lparr>pw_i2cHandle = 0, pw_written = 0, pw_read = 2, pw_readBuf0 = 0, pw_readBuf1 = 0\<rparr>
      (power_ready\<lparr>powerIndex := 1, PowerReadings_ITOT := 1\<rparr>))) = 0.4"
  by (simp add: readPower_def Let_def power_ready_def power_val_def)

text \<open>
  Claim C7, amended. With a board of revision 4 or later, the sensor reachable and the
  index between 0 and 5, a call of \<open>readPower\<close> succeeds and moves the index to its
  successor, 5 going back to 0. At an even index it writes the trigger command with the
  configuration byte of that index and changes no reading and no accumulator. At an odd
  index with a successful read it stores the signed 16-bit value over 32768 times 4.096
  times 6.6 as Vin (index 1) or Vreg (index 3), or times 20 as Itot (index 5), and at every
  such read it adds Itot times 0.4 to the amp-second accumulator and Vin times Itot times
  0.4 to the watt-second accumulator, which divided by 3600 are the amp-hours and
  watt-hours. At an odd index with a failed read the accumulators stay and the status is
  the alert.
\<close>

theorem power_cycle_step:
  assumes "4 \<le> pw_revision s" and "0 \<le> pw_i2cHandle io"
    and "0 \<le> powerIndex s" and "powerIndex s \<le> 5"
  shows "let s' = snd (readPower io s);
             val = real_of_int (power_val (pw_readBuf0 io) (pw_readBuf1 io))
         in fst (readPower io s) \<and>
            powerIndex s' = (powerIndex s + 1) mod 6 \<and>
            (powerIndex s mod 2 = 0 \<longrightarrow>
               pw_i2c s' = pw_i2c s @ [trigger_command (powerIndex s)] \<and>
               PowerReadings_VIN s' = PowerReadings_VIN s \<and>
               PowerReadings_VREG s' = PowerReadings_VREG s \<and>
               PowerReadings_ITOT s' = PowerReadings_ITOT s \<and>
               energyAs s' = energyAs s \<and> energyWs s' = energyWs s) \<and>
            (powerIndex s mod 2 \<noteq> 0 \<and> pw_written io = 0 \<and> 0 < pw_read io \<longrightarrow>
               (powerIndex s = 1 \<longrightarrow> PowerReadings_VIN s' = val / 32768 * 4.096 * 6.6) \<and>
               (powerIndex s = 3 \<longrightarrow> PowerReadings_VREG s' = val / 32768 * 4.096 * 6.6) \<and>
               (powerIndex s = 5 \<longrightarrow> PowerReadings_ITOT s' = val / 32768 * 4.096 * 20) \<and>
               (powerIndex s \<noteq> 1 \<longrightarrow> PowerReadings_VIN s' = PowerReadings_VIN s) \<and>
               (powerIndex s \<noteq> 5 \<longrightarrow> PowerReadings_ITOT s' = PowerReadings_ITOT s) \<and>
               energyAs s' = energyAs s + PowerReadings_ITOT s' * 0.4 \<and>
               energyWs s' = energyWs s + PowerReadings_VIN s' * PowerReadings_ITOT s' * 0.4 \<and>
               PowerReadings_AH s' = energyAs s' / 3600 \<and>
               PowerReadings_WH s' = energyWs s' / 3600) \<and>
            (powerIndex s mod 2 \<noteq> 0 \<and> \<not> (pw_written io = 0 \<and> 0 < pw_read io) \<longrightarrow>
               energyAs s' = energyAs s \<and> energyWs s' = energyWs s \<and>
               PowerReadings_s s' = IPS_ALERT)"
proof -
  have i: "(if 5 < powerIndex s + 1 then 0 else powerIndex s + 1) = (powerIndex s + 1) mod 6"
    using assms(3,4) by auto
  show ?thesis
    unfolding Let_def
    using readPower_index [OF assms(1,2)] readPower_trigger [OF assms(1,2)]
      readPower_read [OF assms(1,2)] readPower_read_failed [OF assms(1,2)] i
    by (intro conjI impI) simp_all
qed

theorem power_cycle_step_witness:
  "powerIndex (snd (readPower
      \<lparr>pw_i2cHandle = 0, pw_written = 0, pw_read = 2, pw_readBuf0 = 0x10, pw_readBuf1 = 0\<rparr>
      (power_ready\<lparr>powerIndex := 5\<rparr>))) = 0 \<and>
   PowerReadings_ITOT (snd (readPower
      \<lparr>pw_i2cHandle = 0, pw_written = 0, pw_read = 2, pw_readBuf0 = 0x10, pw_readBuf1 = 0\<rparr>
      (power_ready\<lparr>powerIndex := 5\<rparr>))) = 4080 / 32768 * 4.096 * 20 \<and>
   energyAs (snd (readPower
      \<lparr>pw_i2cHandle = 0, pw_written = 0, pw_read = 2, pw_readBuf0 = 0x10, pw_readBuf1 = 0\<rparr>
      (power_ready\<lparr>powerIndex := 5\<rparr>))) = 0 + 4080 / 32768 * 4.096 * 20 * 0.4"
proof -
  let ?io = "\<lparr>pw_i2cHandle = 0, pw_written = 0, pw_read = 2, pw_readBuf0 = 0x10,
      pw_readBuf1 = 0\<rparr>"
  let ?s = "power_ready\<lparr>powerIndex := 5\<rparr>"
  have h: "4 \<le> pw_revision ?s" "0 \<le> pw_i2cHandle ?io" "0 \<le> powerIndex ?s"
    "powerIndex ?s \<le> 5"
    by (simp_all add: power_ready_def)
  have e: "energyAs ?s = 0" "powerIndex ?s = 5" "pw_written ?io = 0" "pw_read ?io = 2"
    "pw_readBuf0 ?io = 0x10" "pw_readBuf1 ?io = 0"
    by (simp_all add: power_ready_def)
  note t = power_cycle_step [OF h, unfolded Let_def]
  show ?thesis using t e power_val_example by simp
qed

end
